theory Spec2Isabelle
  imports Complex_Main "HOL-Library.Log_Nat"
begin

section \<open>The request pipeline of the simulated API (app_builder.py)\<close>

text \<open>
  The theory embeds \<^verbatim>\<open>get_simulator\<close> of \<^verbatim>\<open>aoai_simulated_api/app_builder.py\<close>:
  the credential validator \<^verbatim>\<open>validate_api_key\<close>, the routes \<^verbatim>\<open>root\<close>,
  \<^verbatim>\<open>save_recordings\<close> and \<^verbatim>\<open>catchall\<close>, and the route table that binds them.

  Everything the handlers do beyond returning a value is written out:
  \<^item> an exception is a value of type \<open>exn\<close>, and a computation that may raise returns
    \<open>exn + 'a\<close> (\<open>Inl\<close> the exception);
  \<^item> every observable effect (a log line, a call of a collaborator, an observation on a
    histogram, a span attribute, a sleep) is an \<open>event\<close>; a handler returns the list of
    the events it performed, in order, and events performed before an exception stay
    in the list;
  \<^item> the collaborators that are not part of the file (the generators, the record/replay
    handler, the two limiters, the histograms, the clock) are the fields of a record
    \<open>Env\<close>, so every theorem holds for whatever they do.

  A Python float is an IEEE 754 binary64 number: a finite value is the rational it
  denotes, and every arithmetic operation rounds its exact result to the nearest
  binary64 number, ties to even.
\<close>

subsection \<open>Python floats\<close>

text \<open>
  The values of a \<^verbatim>\<open>float\<close>. The sign of a zero is not kept (\<^verbatim>\<open>-0.0 == 0.0\<close> in
  Python, and no test of the handler tells them apart).
\<close>

datatype pyfloat = Finite rat | PosInf | NegInf | NaN

text \<open>Rounding of a rational to the nearest integer, a tie going to the even one.\<close>

definition round_half_even :: "rat \<Rightarrow> int" where
  "round_half_even y =
     (let f = \<lfloor>y\<rfloor>; r = y - of_int f in
      if r < 1 / 2 then f else if 1 / 2 < r then f + 1 else if even f then f else f + 1)"

text \<open>
  For \<open>q > 0\<close>, the exponent \<open>e\<close> with \<open>2 powi e \<le> q < 2 powi (e + 1)\<close>: the
  difference \<open>k\<close> of the bit lengths of numerator and denominator, or \<open>k - 1\<close>.
\<close>

definition binade :: "rat \<Rightarrow> int" where
  "binade q =
     (case quotient_of q of (n, d) \<Rightarrow>
        let k = bitlen n - bitlen d in if 2 powi k \<le> q then k else k - 1)"

text \<open>
  Rounding to the binary64 grid, before the test for overflow: 53 bits of precision in
  the binade of \<open>q\<close>, and the fixed spacing \<open>2 powi (- 1074)\<close> below
  \<open>2 powi (- 1022)\<close> (the subnormal numbers).
\<close>

definition round_binary64 :: "rat \<Rightarrow> rat" where
  "round_binary64 q =
     (if q = 0 then 0
      else let e = max (binade \<bar>q\<bar>) (- 1022); ulp = 2 powi (e - 52)
           in of_int (round_half_even (q / ulp)) * ulp)"

text \<open>The float that an IEEE operation with the exact result \<open>q\<close> delivers.\<close>

definition to_float :: "rat \<Rightarrow> pyfloat" where
  "to_float q =
     (let r = round_binary64 q in
      if 2 ^ 1024 \<le> r then PosInf else if r \<le> - (2 ^ 1024) then NegInf else Finite r)"

text \<open>\<^verbatim>\<open>a - b\<close> on two floats; it never raises.\<close>

fun fsub :: "pyfloat \<Rightarrow> pyfloat \<Rightarrow> pyfloat" where
  "fsub (Finite x) (Finite y) = to_float (x - y)"
| "fsub NaN b = NaN"
| "fsub a NaN = NaN"
| "fsub PosInf PosInf = NaN"
| "fsub NegInf NegInf = NaN"
| "fsub PosInf b = PosInf"
| "fsub NegInf b = NegInf"
| "fsub a PosInf = NegInf"
| "fsub a NegInf = PosInf"

text \<open>\<^verbatim>\<open>a < b\<close> on two floats, and \<^verbatim>\<open>a > 0\<close>.\<close>

fun float_less :: "pyfloat \<Rightarrow> pyfloat \<Rightarrow> bool" where
  "float_less NaN b = False"
| "float_less a NaN = False"
| "float_less (Finite x) (Finite y) = (x < y)"
| "float_less a NegInf = False"
| "float_less PosInf b = False"
| "float_less NegInf b = True"
| "float_less a PosInf = True"

fun float_positive :: "pyfloat \<Rightarrow> bool" where
  "float_positive (Finite q) = (0 < q)"
| "float_positive PosInf = True"
| "float_positive a = False"

text \<open>\<^verbatim>\<open>bool(a)\<close> on a float: false for zero only.\<close>

fun float_truthy :: "pyfloat \<Rightarrow> bool" where
  "float_truthy (Finite q) = (q \<noteq> 0)"
| "float_truthy a = True"



subsection \<open>Python values\<close>

datatype pyval = PNone | PBool bool | PInt int | PFloat pyfloat | PStr string

text \<open>Truth value testing of Python, as used by \<^verbatim>\<open>if x:\<close>.\<close>

fun truthy :: "pyval \<Rightarrow> bool" where
  "truthy PNone = False"
| "truthy (PBool b) = b"
| "truthy (PInt i) = (i \<noteq> 0)"
| "truthy (PFloat a) = float_truthy a"
| "truthy (PStr s) = (s \<noteq> [])"

datatype exn = TypeError | OverflowError | HTTPException int string | Fault string

text \<open>
  \<open>HTTPException\<close> carries the status code and the detail. \<open>Fault\<close> stands for any
  exception that a collaborator raises, named by its message.
\<close>

text \<open>
  \<^verbatim>\<open>i / 1000\<close> on an \<^verbatim>\<open>int\<close>: the exact quotient, rounded once; an
  \<^verbatim>\<open>OverflowError\<close> when the rounded quotient is beyond the largest float.
\<close>

definition int_truediv_1000 :: "int \<Rightarrow> exn + pyfloat" where
  "int_truediv_1000 i =
     (case to_float (of_int i / 1000) of
        Finite r \<Rightarrow> Inr (Finite r)
      | _ \<Rightarrow> Inl OverflowError)"

text \<open>\<^verbatim>\<open>a / 1000\<close> on a \<^verbatim>\<open>float\<close>: the IEEE division by \<open>1000.0\<close>.\<close>

fun float_truediv_1000 :: "pyfloat \<Rightarrow> pyfloat" where
  "float_truediv_1000 (Finite x) = to_float (x / 1000)"
| "float_truediv_1000 a = a"

text \<open>
  \<^verbatim>\<open>x / 1000\<close> on a value: a \<^verbatim>\<open>bool\<close> is an \<^verbatim>\<open>int\<close>; \<^verbatim>\<open>None\<close> and strings
  raise \<^verbatim>\<open>TypeError\<close>.
\<close>

fun truediv_1000 :: "pyval \<Rightarrow> exn + pyfloat" where
  "truediv_1000 (PInt i) = int_truediv_1000 i"
| "truediv_1000 (PFloat a) = Inr (float_truediv_1000 a)"
| "truediv_1000 (PBool b) = int_truediv_1000 (if b then 1 else 0)"
| "truediv_1000 PNone = Inl TypeError"
| "truediv_1000 (PStr s) = Inl TypeError"

type_synonym vals = "string \<rightharpoonup> pyval"

text \<open>\<^verbatim>\<open>d.get(k, default)\<close> and \<^verbatim>\<open>d.get(k)\<close>, whose default is \<^verbatim>\<open>None\<close>.\<close>

definition dict_get_default :: "vals \<Rightarrow> string \<Rightarrow> pyval \<Rightarrow> pyval" where
  "dict_get_default d k dflt = (case d k of None \<Rightarrow> dflt | Some v \<Rightarrow> v)"

definition dict_get :: "vals \<Rightarrow> string \<Rightarrow> pyval" where
  "dict_get d k = dict_get_default d k PNone"

subsection \<open>Data model\<close>

record Config =
  simulator_mode :: string
  simulator_api_key :: string

text \<open>
  The request as the handlers read it: the method and path that the route table
  matches, and the values that the three \<^verbatim>\<open>APIKeyHeader(..., auto_error=False)\<close>
  schemes extract (\<open>None\<close> when the header is missing).
\<close>

record Request =
  http_method :: string
  url_path :: string
  authorization :: "string option"
  api_key_header :: "string option"
  ocp_apim_subscription_key_header :: "string option"

record Response =
  content :: string
  status_code :: int
  headers :: "(string \<times> string) list"

text \<open>\<^verbatim>\<open>Response(content=c, status_code=s)\<close>, with no headers given.\<close>

definition mk_Response :: "string \<Rightarrow> int \<Rightarrow> Response" where
  "mk_Response c s = \<lparr>content = c, status_code = s, headers = []\<rparr>"

record RequestContext =
  config :: Config
  request :: Request
  values' :: vals

text \<open>
  Modelled from the spec: the class \<^verbatim>\<open>RequestContext\<close> (models.py) is not part of
  the file. The context owns a reference to the configuration and to the request, and a
  mutable mapping from string keys to values, which is empty when the context is created.
\<close>

definition new_RequestContext :: "Config \<Rightarrow> Request \<Rightarrow> RequestContext" where
  "new_RequestContext cfg req = \<lparr>config = cfg, request = req, values' = Map.empty\<rparr>"

text \<open>
  The keys of \<^verbatim>\<open>constants\<close> (constants.py, not part of the file) that the handler
  looks up in the context: a parameter of the model.
\<close>

record constants =
  SIMULATOR_KEY_LIMITER :: string
  RECORDED_DURATION_MS :: string
  SIMULATOR_KEY_DEPLOYMENT_NAME :: string
  SIMULATOR_KEY_OPENAI_TOKENS :: string

subsection \<open>Effects\<close>

datatype level = DEBUG | INFO | WARNING | ERROR

datatype histogram =
  histogram_latency_base | histogram_latency_full
  | histogram_tokens_used | histogram_tokens_requested

datatype logarg = ArgStr string | ArgExn exn | ArgTraceback

datatype event =
    Log level string "logarg list"
  | Call_invoke_generators RequestContext
  | Call_handle_request RequestContext
  | Call_limiter pyval RequestContext Response
  | Call_save_recordings
  | Record histogram pyval "(string \<times> pyval) list"
  | Set_attribute string pyfloat
  | Sleep pyfloat

text \<open>
  The collaborators, as they behave during one request. A producer or a limiter gets the
  context and returns (or raises), and leaves the context's mapping in a new state.
  \<open>histogram_record h v attrs\<close> is \<open>Some e\<close> when \<^verbatim>\<open>h.record(v, attributes=attrs)\<close>
  raises \<open>e\<close>. \<open>handler_save_recordings\<close> is \<open>Some e\<close> when
  \<^verbatim>\<open>record_replay_handler.save_recordings()\<close> raises \<open>e\<close>, and \<open>None\<close> when it
  returns. The last three fields are the readings of \<^verbatim>\<open>time.perf_counter()\<close> at the
  three places where the handler calls it.
\<close>

type_synonym collaborator_result = "(exn + Response option) \<times> vals"

record Env =
  invoke_generators :: "RequestContext \<Rightarrow> collaborator_result"
  handle_request :: "RequestContext \<Rightarrow> collaborator_result"
  openai_limiter :: "RequestContext \<Rightarrow> Response \<Rightarrow> collaborator_result"
  doc_intelligence_limiter :: "RequestContext \<Rightarrow> Response \<Rightarrow> collaborator_result"
  histogram_record :: "histogram \<Rightarrow> pyval \<Rightarrow> (string \<times> pyval) list \<Rightarrow> exn option"
  handler_save_recordings :: "exn option"
  start_time :: pyfloat
  base_end_time :: pyfloat
  full_end_time :: pyfloat

text \<open>The emoji of the messages, as the bytes of their UTF-8 encoding.\<close>

definition emoji_key :: string where
  "emoji_key = [CHR 0xF0, CHR 0x9F, CHR 0x94, CHR 0x91]"

definition emoji_lock :: string where
  "emoji_lock = [CHR 0xF0, CHR 0x9F, CHR 0x94, CHR 0x92]"

definition emoji_wave :: string where
  "emoji_wave = [CHR 0xF0, CHR 0x9F, CHR 0x91, CHR 0x8B]"

definition emoji_tape :: string where
  "emoji_tape = [CHR 0xF0, CHR 0x9F, CHR 0x93, CHR 0xBC]"

definition emoji_warning :: string where
  "emoji_warning = [CHR 0xE2, CHR 0x9A, CHR 0xA0, CHR 0xEF, CHR 0xB8, CHR 0x8F]"

definition emoji_zap :: string where
  "emoji_zap = [CHR 0xE2, CHR 0x9A, CHR 0xA1]"

subsection \<open>The credential validator\<close>

definition is_ascii :: "string \<Rightarrow> bool" where
  "is_ascii s = list_all (\<lambda>c. \<not> digit7 c) s"

text \<open>
  \<^verbatim>\<open>secrets.compare_digest(a, b)\<close> on two \<^verbatim>\<open>str\<close>: equality, and a
  \<^verbatim>\<open>TypeError\<close> when one of them has a character outside ASCII.
\<close>

definition compare_digest :: "string \<Rightarrow> string \<Rightarrow> exn + bool" where
  "compare_digest a b = (if is_ascii a \<and> is_ascii b then Inr (a = b) else Inl TypeError)"

text \<open>\<^verbatim>\<open>if x:\<close> on an optional string.\<close>

fun str_truthy :: "string option \<Rightarrow> bool" where
  "str_truthy None = False"
| "str_truthy (Some s) = (s \<noteq> [])"

text \<open>\<^verbatim>\<open>key and secrets.compare_digest(key, secret)\<close>, as a condition.\<close>

fun key_matches :: "string option \<Rightarrow> string \<Rightarrow> exn + bool" where
  "key_matches None secret = Inr False"
| "key_matches (Some k) secret = (if k \<noteq> [] then compare_digest k secret else Inr False)"

definition validate_api_key ::
  "Config \<Rightarrow> string option \<Rightarrow> string option \<Rightarrow> string option \<Rightarrow> (exn + bool) \<times> event list" where
  "validate_api_key cfg api_auth_header_key api_key ocp_apim_subscription_key =
     (if str_truthy api_auth_header_key
      then (Inr True, [Log INFO (emoji_key @ '' API Key for TWIN API provided'') []])
      else case key_matches api_key (simulator_api_key cfg) of
        Inl e \<Rightarrow> (Inl e, [])
      | Inr True \<Rightarrow> (Inr True, [])
      | Inr False \<Rightarrow>
         (case key_matches ocp_apim_subscription_key (simulator_api_key cfg) of
            Inl e \<Rightarrow> (Inl e, [])
          | Inr True \<Rightarrow> (Inr True, [])
          | Inr False \<Rightarrow>
              (Inl (HTTPException 401 ''Missing or incorrect API Key''),
               [Log WARNING (emoji_lock @ '' Missing or incorrect API Key provided'') []])))"

subsection \<open>The management routes\<close>

definition root :: "(string \<times> string) list" where
  "root = [(''message'', emoji_wave @ '' aoai-simulated-api is running'')]"

text \<open>
  The route \<^verbatim>\<open>save_recordings\<close> (lines 108 to 117). It has no \<^verbatim>\<open>try\<close>: when the
  call of the record/replay handler raises, the exception leaves the route after the
  first log line and the call.
\<close>

definition save_recordings :: "Config \<Rightarrow> Env \<Rightarrow> (exn + Response) \<times> event list" where
  "save_recordings cfg E =
     (if simulator_mode cfg = ''record''
      then (case handler_save_recordings E of
              Some e \<Rightarrow>
                (Inl e,
                 [Log INFO (emoji_tape @ '' Saving recordings...'') [], Call_save_recordings])
            | None \<Rightarrow>
                (Inr (mk_Response (emoji_tape @ '' Recordings saved'') 200),
                 [Log INFO (emoji_tape @ '' Saving recordings...'') [],
                  Call_save_recordings,
                  Log INFO (emoji_tape @ '' Recordings saved'') []]))
      else (Inr (mk_Response (emoji_warning @ '' Not saving recordings as not in record mode'') 400),
            [Log WARNING (emoji_warning @ '' Not saving recordings as not in record mode'') []]))"

subsection \<open>The catch-all route\<close>

text \<open>
  Lines 153 to 156: the producer that the operating mode selects. In any other mode
  \<^verbatim>\<open>response\<close> stays \<^verbatim>\<open>None\<close>.
\<close>

definition get_response :: "Config \<Rightarrow> Env \<Rightarrow> RequestContext \<Rightarrow> collaborator_result \<times> event list" where
  "get_response cfg E context =
     (if simulator_mode cfg = ''generate''
      then (invoke_generators E context, [Call_invoke_generators context])
      else if simulator_mode cfg \<in> set [''record'', ''replay'']
      then (handle_request E context, [Call_handle_request context])
      else ((Inr None, values' context), []))"

text \<open>The dictionary of limiters, keyed by name (lines 133 to 138).\<close>

definition limiters ::
  "Env \<Rightarrow> string \<rightharpoonup> (RequestContext \<Rightarrow> Response \<Rightarrow> collaborator_result)" where
  "limiters E = [''openai'' \<mapsto> openai_limiter E, ''docintelligence'' \<mapsto> doc_intelligence_limiter E]"

text \<open>
  \<^verbatim>\<open>limiters.get(limiter_name) if limiter_name else None\<close>: the keys of the
  dictionary are strings, so a name that is no string finds nothing.
\<close>

definition lookup_limiter ::
  "Env \<Rightarrow> pyval \<Rightarrow> (RequestContext \<Rightarrow> Response \<Rightarrow> collaborator_result) option" where
  "lookup_limiter E limiter_name =
     (if truthy limiter_name
      then (case limiter_name of PStr s \<Rightarrow> limiters E s | _ \<Rightarrow> None)
      else None)"

text \<open>
  Lines 163 to 171. The result is the response after the limiter and the context's
  mapping as the limiter left it. A \<^verbatim>\<open>Response\<close> object is always true, so
  \<^verbatim>\<open>if limit_response:\<close> tests for \<^verbatim>\<open>None\<close>.
\<close>

definition apply_limits ::
  "constants \<Rightarrow> Env \<Rightarrow> RequestContext \<Rightarrow> Response \<Rightarrow> ((exn + Response) \<times> vals) \<times> event list" where
  "apply_limits K E context response =
     (let limiter_name = dict_get (values' context) (SIMULATOR_KEY_LIMITER K) in
      case lookup_limiter E limiter_name of
        Some limiter \<Rightarrow>
          (case limiter context response of
             (Inl e, vs) \<Rightarrow> ((Inl e, vs), [Call_limiter limiter_name context response])
           | (Inr (Some limit_response), vs) \<Rightarrow>
               ((Inr limit_response, vs), [Call_limiter limiter_name context response])
           | (Inr None, vs) \<Rightarrow>
               ((Inr response, vs), [Call_limiter limiter_name context response]))
      | None \<Rightarrow>
          ((Inr response, values' context),
           [Log DEBUG ''No limiter found for response: %s'' [ArgStr (url_path (request context))]]))"

text \<open>Lines 174 to 184: the latency added to successful responses.\<close>

definition add_latency :: "constants \<Rightarrow> Env \<Rightarrow> vals \<Rightarrow> Response \<Rightarrow> (exn + unit) \<times> event list" where
  "add_latency K E vs response =
     (let base_duration_s = fsub (base_end_time E) (start_time E) in
      if status_code response < 300
      then (case truediv_1000 (dict_get_default vs (RECORDED_DURATION_MS K) (PInt 0)) of
              Inl e \<Rightarrow> (Inl e, [])
            | Inr recorded_duration_s \<Rightarrow>
                (let extra_latency = fsub recorded_duration_s base_duration_s in
                 if float_positive extra_latency
                 then (Inr (), [Set_attribute ''simulator.added_latency'' extra_latency,
                                Sleep extra_latency])
                 else (Inr (), [])))
      else (Inr (), []))"

text \<open>One call of \<^verbatim>\<open>record\<close> on a histogram, and the sequencing of two steps.\<close>

definition record_hist ::
  "Env \<Rightarrow> histogram \<Rightarrow> pyval \<Rightarrow> (string \<times> pyval) list \<Rightarrow> (exn + unit) \<times> event list" where
  "record_hist E h v attrs =
     (case histogram_record E h v attrs of
        Some e \<Rightarrow> (Inl e, [])
      | None \<Rightarrow> (Inr (), [Record h v attrs]))"

definition and_then ::
  "(exn + unit) \<times> event list \<Rightarrow> (exn + unit) \<times> event list \<Rightarrow> (exn + unit) \<times> event list" where
  "and_then a b =
     (case a of
        (Inl e, evs) \<Rightarrow> (Inl e, evs)
      | (Inr _, evs) \<Rightarrow> (fst b, evs @ snd b))"

text \<open>Lines 186 to 213: the four histograms.\<close>

definition record_metrics :: "constants \<Rightarrow> Env \<Rightarrow> vals \<Rightarrow> Response \<Rightarrow> (exn + unit) \<times> event list" where
  "record_metrics K E vs response =
     (let base_duration_s = fsub (base_end_time E) (start_time E);
          deployment_name = dict_get vs (SIMULATOR_KEY_DEPLOYMENT_NAME K);
          tokens_used = dict_get vs (SIMULATOR_KEY_OPENAI_TOKENS K);
          latency_attributes =
            [(''status_code'', PInt (status_code response)), (''deployment'', deployment_name)]
      in
      and_then (record_hist E histogram_latency_base (PFloat base_duration_s) latency_attributes)
     (and_then (record_hist E histogram_latency_full
                  (PFloat (fsub (full_end_time E) (start_time E))) latency_attributes)
        (if truthy tokens_used
         then and_then (record_hist E histogram_tokens_requested tokens_used
                          [(''deployment'', deployment_name)])
                (if status_code response < 300
                 then record_hist E histogram_tokens_used tokens_used
                        [(''deployment'', deployment_name)]
                 else (Inr (), []))
         else (Inr (), []))))"

text \<open>The three log lines of the handler itself.\<close>

definition handling_log :: "Request \<Rightarrow> event" where
  "handling_log req = Log DEBUG (emoji_zap @ '' handling route: %s'') [ArgStr (url_path req)]"

definition no_response_log :: "Request \<Rightarrow> event" where
  "no_response_log req =
     Log ERROR ''No response generated for request: %s'' [ArgStr (url_path req)]"

definition error_log :: "exn \<Rightarrow> event" where
  "error_log e = Log ERROR (''Error: %s'' @ [CHR 0x0A] @ ''%s'') [ArgExn e, ArgTraceback]"

text \<open>The body of the \<^verbatim>\<open>try\<close> statement (lines 149 to 215).\<close>

definition catchall_try ::
  "constants \<Rightarrow> Config \<Rightarrow> Env \<Rightarrow> Request \<Rightarrow> (exn + Response) \<times> event list" where
  "catchall_try K cfg E req =
     (let context = new_RequestContext cfg req in
      case get_response cfg E context of
        ((Inl e, vs), evs1) \<Rightarrow> (Inl e, evs1)
      | ((Inr None, vs), evs1) \<Rightarrow> (Inr (mk_Response [] 500), evs1 @ [no_response_log req])
      | ((Inr (Some response), vs), evs1) \<Rightarrow>
          (case apply_limits K E (context\<lparr>values' := vs\<rparr>) response of
             ((Inl e, vs2), evs2) \<Rightarrow> (Inl e, evs1 @ evs2)
           | ((Inr response2, vs2), evs2) \<Rightarrow>
               (case add_latency K E vs2 response2 of
                  (Inl e, evs3) \<Rightarrow> (Inl e, evs1 @ evs2 @ evs3)
                | (Inr _, evs3) \<Rightarrow>
                    (case record_metrics K E vs2 response2 of
                       (Inl e, evs4) \<Rightarrow> (Inl e, evs1 @ evs2 @ evs3 @ evs4)
                     | (Inr _, evs4) \<Rightarrow> (Inr response2, evs1 @ evs2 @ evs3 @ evs4)))))"

text \<open>
  The handler: the \<^verbatim>\<open>try\<close> statement with its \<^verbatim>\<open>except Exception\<close>, which
  logs and answers 500.
\<close>

definition catchall :: "constants \<Rightarrow> Config \<Rightarrow> Env \<Rightarrow> Request \<Rightarrow> Response \<times> event list" where
  "catchall K cfg E req =
     (case catchall_try K cfg E req of
        (Inr response, evs) \<Rightarrow> (response, handling_log req # evs)
      | (Inl e, evs) \<Rightarrow> (mk_Response [] 500, handling_log req # evs @ [error_log e]))"

subsection \<open>The route table\<close>

text \<open>
  What a route answers: the dictionary that \<^verbatim>\<open>root\<close> returns, or a response.
  The routes are tried in the order of their declaration; a route with
  \<^verbatim>\<open>Depends(validate_api_key)\<close> runs the validator first and its handler only
  when the validator returns. An exception of the validator or of a handler leaves the
  application as it is (the framework answers an \<open>HTTPException\<close> with its status
  code and any other exception with status 500).
\<close>

datatype reply = Json "(string \<times> string) list" | Resp Response

definition app :: "constants \<Rightarrow> Config \<Rightarrow> Env \<Rightarrow> Request \<Rightarrow> (exn + reply) \<times> event list" where
  "app K cfg E req =
     (if http_method req = ''GET'' \<and> url_path req = ''/''
      then (Inr (Json root), [])
      else if http_method req = ''POST'' \<and> url_path req = ''/++/save-recordings''
      then (case validate_api_key cfg (authorization req) (api_key_header req)
                   (ocp_apim_subscription_key_header req) of
              (Inl e, evs) \<Rightarrow> (Inl e, evs)
            | (Inr _, evs) \<Rightarrow>
                (case save_recordings cfg E of
                   (Inl e, evs2) \<Rightarrow> (Inl e, evs @ evs2)
                 | (Inr response, evs2) \<Rightarrow> (Inr (Resp response), evs @ evs2)))
      else if http_method req \<in> set [''GET'', ''POST'', ''PUT'', ''DELETE'']
      then (case validate_api_key cfg (authorization req) (api_key_header req)
                   (ocp_apim_subscription_key_header req) of
              (Inl e, evs) \<Rightarrow> (Inl e, evs)
            | (Inr _, evs) \<Rightarrow>
                (case catchall K cfg E req of (response, evs2) \<Rightarrow> (Inr (Resp response), evs @ evs2)))
      else (Inl (HTTPException 405 ''Method Not Allowed''), []))"

subsection \<open>Reading a list of events\<close>

text \<open>The durations slept, the values observed on a histogram, the limiter calls and the
  messages logged at a level, each in the order of the events.\<close>

fun sleeps :: "event list \<Rightarrow> pyfloat list" where
  "sleeps [] = []"
| "sleeps (Sleep d # es) = d # sleeps es"
| "sleeps (e # es) = sleeps es"

fun observations :: "histogram \<Rightarrow> event list \<Rightarrow> pyval list" where
  "observations h [] = []"
| "observations h (Record h' v attrs # es) =
     (if h' = h then v # observations h es else observations h es)"
| "observations h (e # es) = observations h es"

fun limiter_calls :: "event list \<Rightarrow> event list" where
  "limiter_calls [] = []"
| "limiter_calls (Call_limiter n c r # es) = Call_limiter n c r # limiter_calls es"
| "limiter_calls (e # es) = limiter_calls es"

fun logged :: "level \<Rightarrow> event list \<Rightarrow> string list" where
  "logged l [] = []"
| "logged l (Log l' msg args # es) = (if l' = l then msg # logged l es else logged l es)"
| "logged l (e # es) = logged l es"

text \<open>
  The stage of the pipeline that an event belongs to: 1 for the call of a producer, 2
  for the call of a limiter, 3 for the latency emulation, 4 for the metrics. Log lines
  belong to no stage.
\<close>

fun stage_of :: "event \<Rightarrow> nat option" where
  "stage_of (Call_invoke_generators c) = Some 1"
| "stage_of (Call_handle_request c) = Some 1"
| "stage_of (Call_limiter n c r) = Some 2"
| "stage_of (Set_attribute k v) = Some 3"
| "stage_of (Sleep d) = Some 3"
| "stage_of (Record h v attrs) = Some 4"
| "stage_of (Log l msg args) = None"
| "stage_of Call_save_recordings = None"

fun stages :: "event list \<Rightarrow> nat list" where
  "stages [] = []"
| "stages (e # es) = (case stage_of e of None \<Rightarrow> stages es | Some n \<Rightarrow> n # stages es)"

subsection \<open>Example requests\<close>

definition example_constants :: constants where
  "example_constants =
     \<lparr>SIMULATOR_KEY_LIMITER = ''Limiter'',
      RECORDED_DURATION_MS = ''RecordedDurationMs'',
      SIMULATOR_KEY_DEPLOYMENT_NAME = ''DeploymentName'',
      SIMULATOR_KEY_OPENAI_TOKENS = ''OpenAITokens''\<rparr>"

definition example_config :: "string \<Rightarrow> Config" where
  "example_config mode = \<lparr>simulator_mode = mode, simulator_api_key = ''secret''\<rparr>"

definition example_request :: "string \<Rightarrow> string \<Rightarrow> string option \<Rightarrow> Request" where
  "example_request m path key =
     \<lparr>http_method = m, url_path = path, authorization = None, api_key_header = key,
      ocp_apim_subscription_key_header = None\<rparr>"

definition ok_response :: Response where
  "ok_response = mk_Response ''ok'' 200"

definition denied_response :: Response where
  "denied_response = mk_Response ''rate limit exceeded'' 429"

text \<open>The floats that Python writes \<^verbatim>\<open>0.05\<close>, \<^verbatim>\<open>0.3\<close> and \<^verbatim>\<open>0.45\<close>.\<close>

definition float_0_05 :: pyfloat where
  "float_0_05 = Finite (3602879701896397 / 72057594037927936)"

definition float_0_3 :: pyfloat where
  "float_0_3 = Finite (5404319552844595 / 18014398509481984)"

definition float_0_45 :: pyfloat where
  "float_0_45 = Finite (8106479329266893 / 18014398509481984)"

text \<open>
  An environment whose producers answer \<open>produced\<close> and leave \<open>vs\<close> in the context,
  whose \<^verbatim>\<open>openai\<close> limiter answers \<open>limited\<close>, whose histogram \<open>failing\<close> (if any)
  raises, and whose record/replay handler saves without raising. The clock reads 0.0
  when the handler starts and 0.05 when it reaches the latency stage.
\<close>

definition example_env :: "Response option \<Rightarrow> vals \<Rightarrow> Response option \<Rightarrow> histogram option \<Rightarrow> Env" where
  "example_env produced vs limited failing =
     \<lparr>invoke_generators = (\<lambda>c. (Inr produced, vs)),
      handle_request = (\<lambda>c. (Inr produced, vs)),
      openai_limiter = (\<lambda>c r. (Inr limited, values' c)),
      doc_intelligence_limiter = (\<lambda>c r. (Inr None, values' c)),
      histogram_record =
        (\<lambda>h v attrs. if Some h = failing then Some (Fault ''invalid attribute'') else None),
      handler_save_recordings = None,
      start_time = Finite 0,
      base_end_time = float_0_05,
      full_end_time = Finite (1 / 2)\<rparr>"

section \<open>Properties\<close>

subsection \<open>Rounding keeps the sign of a difference of floats\<close>

lemma round_half_even_bounds: "\<lfloor>y\<rfloor> \<le> round_half_even y" "round_half_even y \<le> \<lfloor>y\<rfloor> + 1"
  by (simp_all add: round_half_even_def Let_def)


lemma round_half_even_nonpos: "y \<le> 0 \<Longrightarrow> round_half_even y \<le> 0"
proof -
  assume y: "y \<le> 0"
  show ?thesis
  proof (cases "y = 0")
    case True
    then show ?thesis by (simp add: round_half_even_def)
  next
    case False
    with y have "y < 0" by simp
    then have "\<lfloor>y\<rfloor> \<le> - 1" by (simp add: floor_le_iff)
    then show ?thesis using round_half_even_bounds(2)[of y] by linarith
  qed
qed

lemma binade_lower:
  assumes "0 < q"
  shows "2 powi (binade q) \<le> q"
proof -
  obtain n d where nd: "quotient_of q = (n, d)" by (cases "quotient_of q")
  have d: "0 < d" using quotient_of_denom_pos[OF nd] .
  have q: "q = of_int n / of_int d" using quotient_of_div[OF nd] .
  have n: "0 < n" using assms d q by (simp add: zero_less_divide_iff)
  define k where "k = bitlen n - bitlen d"
  show ?thesis
  proof (cases "2 powi k \<le> q")
    case True
    then show ?thesis by (simp add: binade_def nd k_def Let_def)
  next
    case False
    then have b: "binade q = k - 1" by (simp add: binade_def nd k_def Let_def)
    have bn: "1 \<le> bitlen n" using n bitlen_eq_zero_iff[of n] bitlen_nonneg[of n] by linarith
    have bd: "1 \<le> bitlen d" using d bitlen_eq_zero_iff[of d] bitlen_nonneg[of d] by linarith
    have ln: "(2::rat) powi (bitlen n - 1) \<le> of_int n"
    proof -
      have "(2::int) ^ nat (bitlen n - 1) \<le> n" using bitlen_bounds[OF n] by simp
      then have "(of_int ((2::int) ^ nat (bitlen n - 1)) :: rat) \<le> of_int n"
        by (simp only: of_int_le_iff)
      moreover have "(2::rat) powi (bitlen n - 1) = 2 ^ nat (bitlen n - 1)"
        using bn by (simp add: power_int_def)
      ultimately show ?thesis by simp
    qed
    have ud: "of_int d \<le> (2::rat) powi (bitlen d)"
    proof -
      have "d < (2::int) ^ nat (bitlen d)" using bitlen_bounds[OF d] by simp
      then have "(of_int d :: rat) \<le> of_int ((2::int) ^ nat (bitlen d))"
        by (simp only: of_int_le_iff)
      moreover have "(2::rat) powi (bitlen d) = 2 ^ nat (bitlen d)"
        using bd by (simp add: power_int_def)
      ultimately show ?thesis by simp
    qed
    have "k - 1 = (bitlen n - 1) - bitlen d" by (simp add: k_def)
    then have "(2::rat) powi (k - 1) = 2 powi ((bitlen n - 1) - bitlen d)" by (simp only:)
    also have "\<dots> = 2 powi (bitlen n - 1) / 2 powi (bitlen d)"
      by (rule power_int_diff) simp
    also have "\<dots> \<le> of_int n / 2 powi (bitlen d)"
      using ln by (simp add: divide_right_mono)
    also have "\<dots> \<le> of_int n / of_int d"
      using ud d n by (simp add: frac_le)
    finally show ?thesis using b q by simp
  qed
qed


lemma round_binary64_nonpos:
  assumes "q \<le> 0"
  shows "round_binary64 q \<le> 0"
proof (cases "q = 0")
  case True
  then show ?thesis by (simp add: round_binary64_def)
next
  case False
  define e where "e = max (binade \<bar>q\<bar>) (- 1022)"
  define ulp :: rat where "ulp = 2 powi (e - 52)"
  have u: "0 < ulp" by (simp add: ulp_def)
  have "q / ulp \<le> 0" using assms u by (simp add: divide_le_0_iff)
  then have "round_half_even (q / ulp) \<le> 0" by (rule round_half_even_nonpos)
  then have "(of_int (round_half_even (q / ulp)) :: rat) * ulp \<le> 0"
    using u by (simp add: mult_le_0_iff)
  then show ?thesis using False by (simp add: round_binary64_def Let_def e_def ulp_def)
qed









lemma int_truediv_1000_zero: "int_truediv_1000 0 = Inr (Finite 0)"
  by (simp add: int_truediv_1000_def to_float_def round_binary64_def)

subsection \<open>The rounding is the one of binary64\<close>

text \<open>
  \<open>binade\<close> computes the binary exponent, so \<open>round_binary64\<close> rounds to 53 bits in the
  binade of its argument; a number with 53 bits is its own rounding, and a number from
  \<open>2 ^ 1024\<close> on overflows.
\<close>

lemma binade_upper:
  assumes "0 < q"
  shows "q < 2 powi (binade q + 1)"
proof -
  obtain n d where nd: "quotient_of q = (n, d)" by (cases "quotient_of q")
  have d: "0 < d" using quotient_of_denom_pos[OF nd] .
  have q: "q = of_int n / of_int d" using quotient_of_div[OF nd] .
  have n: "0 < n" using assms d q by (simp add: zero_less_divide_iff)
  define k where "k = bitlen n - bitlen d"
  show ?thesis
  proof (cases "2 powi k \<le> q")
    case False
    then show ?thesis by (simp add: binade_def nd k_def Let_def)
  next
    case True
    then have b: "binade q = k" by (simp add: binade_def nd k_def Let_def)
    have bn: "0 \<le> bitlen n" by (rule bitlen_nonneg)
    have bd: "1 \<le> bitlen d" using d bitlen_eq_zero_iff[of d] bitlen_nonneg[of d] by linarith
    have un: "of_int n < (2::rat) powi (bitlen n)"
    proof -
      have "n < (2::int) ^ nat (bitlen n)" using bitlen_bounds[OF n] by simp
      then have "(of_int n :: rat) < of_int ((2::int) ^ nat (bitlen n))"
        by (simp only: of_int_less_iff)
      moreover have "(2::rat) powi (bitlen n) = 2 ^ nat (bitlen n)"
        using bn by (simp add: power_int_def)
      ultimately show ?thesis by simp
    qed
    have ld: "(2::rat) powi (bitlen d - 1) \<le> of_int d"
    proof -
      have "(2::int) ^ nat (bitlen d - 1) \<le> d" using bitlen_bounds[OF d] by simp
      then have "(of_int ((2::int) ^ nat (bitlen d - 1)) :: rat) \<le> of_int d"
        by (simp only: of_int_le_iff)
      moreover have "(2::rat) powi (bitlen d - 1) = 2 ^ nat (bitlen d - 1)"
        using bd by (simp add: power_int_def)
      ultimately show ?thesis by simp
    qed
    have p: "(0::rat) < 2 powi (bitlen d - 1)" by simp
    have "of_int n / of_int d \<le> of_int n / (2::rat) powi (bitlen d - 1)"
      using ld n p by (simp add: frac_le)
    also have "\<dots> < 2 powi (bitlen n) / 2 powi (bitlen d - 1)"
      using un p by (simp add: divide_strict_right_mono)
    also have "\<dots> = 2 powi (bitlen n - (bitlen d - 1))"
      by (rule power_int_diff[symmetric]) simp
    also have "bitlen n - (bitlen d - 1) = k + 1" by (simp add: k_def)
    finally show ?thesis using b q by simp
  qed
qed

lemma two_powi_less_imp:
  assumes "(2::rat) powi a < 2 powi b"
  shows "a < b"
proof (rule ccontr)
  assume "\<not> a < b"
  then have "b \<le> a" by simp
  then have "(2::rat) powi b \<le> 2 powi a" by (intro power_int_increasing) simp_all
  then show False using assms by linarith
qed

lemma binade_unique:
  assumes "2 powi e \<le> q" and "q < 2 powi (e + 1)"
  shows "binade q = e"
proof -
  have "(0::rat) < 2 powi e" by simp
  then have q: "0 < q" using assms(1) by linarith
  have "(2::rat) powi e < 2 powi (binade q + 1)"
    using assms(1) binade_upper[OF q] by linarith
  then have a: "e < binade q + 1" by (rule two_powi_less_imp)
  have "(2::rat) powi (binade q) < 2 powi (e + 1)"
    using binade_lower[OF q] assms(2) by linarith
  then have b: "binade q < e + 1" by (rule two_powi_less_imp)
  show ?thesis using a b by linarith
qed

lemma round_binary64_in_binade:
  assumes "2 powi e \<le> \<bar>q\<bar>" and "\<bar>q\<bar> < 2 powi (e + 1)" and "- 1022 \<le> e"
  shows "round_binary64 q = of_int (round_half_even (q / 2 powi (e - 52))) * 2 powi (e - 52)"
proof -
  have "(0::rat) < 2 powi e" by simp
  then have "0 < \<bar>q\<bar>" using assms(1) by linarith
  then have "q \<noteq> 0" by simp
  then show ?thesis
    using binade_unique[OF assms(1,2)] assms(3) by (simp add: round_binary64_def Let_def)
qed

lemma round_half_even_of_int: "round_half_even (of_int m) = m"
  by (simp add: round_half_even_def)

lemma round_binary64_exact:
  assumes "2 ^ 52 \<le> \<bar>m\<bar>" and "\<bar>m\<bar> < 2 ^ 53" and "- 1022 \<le> e"
  shows "round_binary64 (of_int m * 2 powi (e - 52)) = of_int m * 2 powi (e - 52)"
proof -
  let ?q = "of_int m * (2::rat) powi (e - 52)"
  have u: "(0::rat) < 2 powi (e - 52)" by simp
  have abs: "\<bar>?q\<bar> = of_int \<bar>m\<bar> * 2 powi (e - 52)" by (simp add: abs_mult)
  have e1: "(2::rat) powi e = 2 ^ 52 * 2 powi (e - 52)"
  proof -
    have "e = 52 + (e - 52)" by simp
    then have "(2::rat) powi e = 2 powi (52 + (e - 52))" by (simp only:)
    also have "\<dots> = 2 powi 52 * 2 powi (e - 52)" by (rule power_int_add) simp
    finally show ?thesis by simp
  qed
  have e2: "(2::rat) powi (e + 1) = 2 ^ 53 * 2 powi (e - 52)"
  proof -
    have "e + 1 = 53 + (e - 52)" by simp
    then have "(2::rat) powi (e + 1) = 2 powi (53 + (e - 52))" by (simp only:)
    also have "\<dots> = 2 powi 53 * 2 powi (e - 52)" by (rule power_int_add) simp
    finally show ?thesis by simp
  qed
  have "(of_int ((2::int) ^ 52) :: rat) \<le> of_int \<bar>m\<bar>" using assms(1) by (simp only: of_int_le_iff)
  then have l: "(2::rat) powi e \<le> \<bar>?q\<bar>"
    unfolding abs e1 using u by (simp only: mult_le_cancel_right_pos of_int_power of_int_numeral)
  have "(of_int \<bar>m\<bar> :: rat) < of_int ((2::int) ^ 53)" using assms(2) by (simp only: of_int_less_iff)
  then have h: "\<bar>?q\<bar> < (2::rat) powi (e + 1)"
    unfolding abs e2 using u by (simp only: mult_less_cancel_right_pos of_int_power of_int_numeral)
  have "?q / 2 powi (e - 52) = of_int m" by simp
  then show ?thesis
    unfolding round_binary64_in_binade[OF l h assms(3)] by (simp only: round_half_even_of_int)
qed

lemma round_binary64_overflow:
  assumes "2 ^ 1024 \<le> q"
  shows "2 ^ 1024 \<le> round_binary64 q"
proof -
  have "(0::rat) < 2 ^ 1024" by simp
  then have q: "0 < q" using assms by linarith
  define e where "e = binade q"
  have "(2::rat) powi 1024 = 2 ^ 1024" by (simp only: power_int_numeral)
  then have "(2::rat) powi 1024 < 2 powi (e + 1)"
    using assms binade_upper[OF q] unfolding e_def by linarith
  then have "1024 < e + 1" by (rule two_powi_less_imp)
  then have e: "1024 \<le> e" by simp
  define ulp :: rat where "ulp = 2 powi (e - 52)"
  have u: "0 < ulp" by (simp add: ulp_def)
  have pe: "(2::rat) powi e = 2 ^ 52 * ulp"
  proof -
    have "e = 52 + (e - 52)" by simp
    then have "(2::rat) powi e = 2 powi (52 + (e - 52))" by (simp only:)
    also have "\<dots> = 2 powi 52 * 2 powi (e - 52)" by (rule power_int_add) simp
    finally show ?thesis unfolding ulp_def by (simp only: power_int_numeral)
  qed
  have "2 ^ 52 * ulp \<le> q" using binade_lower[OF q] unfolding e_def[symmetric] pe .
  then have "of_int ((2::int) ^ 52) \<le> q / ulp" using u by (simp add: le_divide_eq)
  then have "(2::int) ^ 52 \<le> \<lfloor>q / ulp\<rfloor>" by (simp only: le_floor_iff)
  then have "(2::int) ^ 52 \<le> round_half_even (q / ulp)"
    using round_half_even_bounds(1)[of "q / ulp"] by linarith
  then have "(of_int ((2::int) ^ 52) :: rat) \<le> of_int (round_half_even (q / ulp))"
    by (simp only: of_int_le_iff)
  then have "2 ^ 52 * ulp \<le> of_int (round_half_even (q / ulp)) * ulp"
    using u by (simp only: mult_le_cancel_right_pos of_int_power of_int_numeral)
  then have "(2::rat) powi e \<le> of_int (round_half_even (q / ulp)) * ulp"
    unfolding pe .
  moreover have "(2::rat) powi 1024 \<le> 2 powi e"
    using e by (intro power_int_increasing) simp_all
  moreover have "(2::rat) powi 1024 = 2 ^ 1024" by (simp only: power_int_numeral)
  moreover have "round_binary64 q = of_int (round_half_even (q / ulp)) * ulp"
    using q e by (simp add: round_binary64_def Let_def e_def ulp_def)
  ultimately show ?thesis by linarith
qed

lemma to_float_exact:
  assumes "2 ^ 52 \<le> \<bar>m\<bar>" and "\<bar>m\<bar> < 2 ^ 53" and "- 1022 \<le> e" and "e \<le> 1023"
    and "q = of_int m * 2 powi (e - 52)"
  shows "to_float q = Finite q"
proof -
  have r: "round_binary64 q = q"
    unfolding assms(5) by (rule round_binary64_exact[OF assms(1,2,3)])
  have u: "(0::rat) < 2 powi (e - 52)" by simp
  have "\<bar>q\<bar> = of_int \<bar>m\<bar> * 2 powi (e - 52)" unfolding assms(5) by (simp add: abs_mult)
  also have "\<dots> < of_int ((2::int) ^ 53) * 2 powi (e - 52)"
    using assms(2) u by (simp only: mult_less_cancel_right_pos of_int_less_iff)
  also have "\<dots> = 2 powi 53 * 2 powi (e - 52)"
    by (simp only: of_int_power of_int_numeral power_int_numeral)
  also have "\<dots> = 2 powi (53 + (e - 52))"
    by (rule power_int_add[symmetric]) simp
  also have "\<dots> \<le> 2 powi 1024"
    using assms(4) by (intro power_int_increasing) simp_all
  finally have "\<bar>q\<bar> < 2 ^ 1024" by simp
  then show ?thesis by (simp add: to_float_def r abs_less_iff)
qed

lemma to_float_nonpositive: "q \<le> 0 \<Longrightarrow> \<not> float_positive (to_float q)"
  using round_binary64_nonpos[of q] by (auto simp add: to_float_def Let_def)

lemma to_float_overflow: "2 ^ 1024 \<le> q \<Longrightarrow> to_float q = PosInf"
  using round_binary64_overflow[of q] by (simp add: to_float_def Let_def)

lemma to_float_in_binade:
  assumes "2 powi e \<le> \<bar>q\<bar>" and "\<bar>q\<bar> < 2 powi (e + 1)" and "- 1022 \<le> e"
    and "r = of_int (round_half_even (q / 2 powi (e - 52))) * 2 powi (e - 52)"
    and "\<bar>r\<bar> < 2 ^ 1024"
  shows "to_float q = Finite r"
  using assms(5) unfolding assms(4)
  by (simp add: to_float_def round_binary64_in_binade[OF assms(1,2,3)] abs_less_iff)

text \<open>The arithmetic of the examples.\<close>

lemma example_arithmetic:
  "fsub float_0_05 (Finite 0) = float_0_05"
  "int_truediv_1000 500 = Inr (Finite (1 / 2))"
  "fsub float_0_3 (Finite 0) = float_0_3"
proof -
  have a: "to_float (3602879701896397 / 72057594037927936) =
      Finite (3602879701896397 / 72057594037927936)"
    by (rule to_float_exact[where m = 7205759403792794 and e = "- 5"]) simp_all
  show "fsub float_0_05 (Finite 0) = float_0_05"
    using a by (simp add: float_0_05_def)
  have b: "to_float (1 / 2) = Finite (1 / 2)"
    by (rule to_float_exact[where m = 4503599627370496 and e = "- 1"]) simp_all
  show "int_truediv_1000 500 = Inr (Finite (1 / 2))"
    using b by (simp add: int_truediv_1000_def)
  have c: "to_float (5404319552844595 / 18014398509481984) =
      Finite (5404319552844595 / 18014398509481984)"
    by (rule to_float_exact[where m = 5404319552844595 and e = "- 2"]) simp_all
  show "fsub float_0_3 (Finite 0) = float_0_3"
    using c by (simp add: float_0_3_def)
qed

lemma example_rounding:
  "fsub (Finite (1 / 2)) float_0_05 = float_0_45"
  "int_truediv_1000 300 = Inr float_0_3"
proof -
  have f: "\<lfloor>(32425917317067571::rat) / 4\<rfloor> = 8106479329266892"
    by (rule floor_unique) simp_all
  have "to_float (1 / 2 - 3602879701896397 / 72057594037927936) =
      Finite (8106479329266893 / 18014398509481984)"
    by (rule to_float_in_binade[where e = "- 2"]) (simp_all add: round_half_even_def Let_def f)
  then show "fsub (Finite (1 / 2)) float_0_05 = float_0_45"
    by (simp add: float_0_05_def float_0_45_def)
  have g: "\<lfloor>(27021597764222976::rat) / 5\<rfloor> = 5404319552844595"
    by (rule floor_unique) simp_all
  have "to_float (300 / 1000) = Finite (5404319552844595 / 18014398509481984)"
    by (rule to_float_in_binade[where e = "- 2"]) (simp_all add: round_half_even_def Let_def g)
  then show "int_truediv_1000 300 = Inr float_0_3"
    by (simp add: int_truediv_1000_def float_0_3_def)
qed

lemma example_overflow: "int_truediv_1000 (10 ^ 312) = Inl OverflowError"
proof -
  have "(2::rat) ^ 1024 \<le> 10 ^ 309" by simp
  then have "to_float (10 ^ 309) = PosInf" by (rule to_float_overflow)
  moreover have "(of_int (10 ^ 312) :: rat) / 1000 = 10 ^ 309" by simp
  ultimately show ?thesis by (simp only: int_truediv_1000_def pyfloat.case)
qed

lemma example_comparisons:
  "float_less float_0_05 (Finite (1 / 2))"
  "\<not> float_less float_0_3 float_0_3"
  "float_positive (fsub (Finite 0) float_0_05) = False"
  by (simp_all add: float_0_05_def float_0_3_def to_float_nonpositive)

lemmas example_floats =
  example_arithmetic example_rounding example_overflow example_comparisons

subsection \<open>Lemmas on lists of events\<close>

lemma sleeps_append: "sleeps (xs @ ys) = sleeps xs @ sleeps ys"
  by (induction xs rule: sleeps.induct) simp_all

lemma observations_append: "observations h (xs @ ys) = observations h xs @ observations h ys"
  by (induction h xs rule: observations.induct) simp_all

lemma limiter_calls_append: "limiter_calls (xs @ ys) = limiter_calls xs @ limiter_calls ys"
  by (induction xs rule: limiter_calls.induct) simp_all

lemma logged_append: "logged l (xs @ ys) = logged l xs @ logged l ys"
  by (induction l xs rule: logged.induct) simp_all

lemma stages_append: "stages (xs @ ys) = stages xs @ stages ys"
  by (induction xs) (simp_all split: option.splits)

lemmas reads_append =
  sleeps_append observations_append limiter_calls_append logged_append stages_append

lemma log_reads:
  "sleeps (Log l m a # es) = sleeps es"
  "observations h (Log l m a # es) = observations h es"
  "limiter_calls (Log l m a # es) = limiter_calls es"
  "stages (Log l m a # es) = stages es"
  by simp_all

lemma get_response_reads:
  "sleeps (snd (get_response cfg E c)) = []"
  "observations h (snd (get_response cfg E c)) = []"
  "limiter_calls (snd (get_response cfg E c)) = []"
  "logged l (snd (get_response cfg E c)) = []"
  "set (stages (snd (get_response cfg E c))) \<subseteq> {1}"
  by (simp_all add: get_response_def)

lemma apply_limits_reads:
  "sleeps (snd (apply_limits K E c r)) = []"
  "observations h (snd (apply_limits K E c r)) = []"
  "logged ERROR (snd (apply_limits K E c r)) = []"
  "set (stages (snd (apply_limits K E c r))) \<subseteq> {2}"
  by (simp_all add: apply_limits_def Let_def split: option.splits prod.splits sum.splits)

lemma add_latency_reads:
  "observations h (snd (add_latency K E vs r)) = []"
  "limiter_calls (snd (add_latency K E vs r)) = []"
  "logged l (snd (add_latency K E vs r)) = []"
  "set (stages (snd (add_latency K E vs r))) \<subseteq> {3}"
  by (simp_all add: add_latency_def Let_def split: sum.splits)


lemma record_hist_reads:
  "sleeps (snd (record_hist E h v a)) = []"
  "limiter_calls (snd (record_hist E h v a)) = []"
  "logged l (snd (record_hist E h v a)) = []"
  "set (stages (snd (record_hist E h v a))) \<subseteq> {4}"
  by (simp_all add: record_hist_def split: option.splits)

lemma record_hist_observations:
  "observations h (snd (record_hist E h' v a)) =
     (if h' = h \<and> histogram_record E h' v a = None then [v] else [])"
  by (simp add: record_hist_def split: option.splits)

lemma record_hist_fst:
  "fst (record_hist E h v a) = Inr () \<longleftrightarrow> histogram_record E h v a = None"
  by (simp add: record_hist_def split: option.splits)

lemma and_then_snd:
  "snd (and_then a b) = (case fst a of Inl e \<Rightarrow> snd a | Inr u \<Rightarrow> snd a @ snd b)"
  by (simp add: and_then_def split: prod.splits sum.splits)

lemma and_then_fst:
  "fst (and_then a b) = (case fst a of Inl e \<Rightarrow> Inl e | Inr u \<Rightarrow> fst b)"
  by (simp add: and_then_def split: prod.splits sum.splits)

lemma and_then_ok: "fst (and_then a b) = Inr () \<longleftrightarrow> fst a = Inr () \<and> fst b = Inr ()"
  by (simp add: and_then_fst split: sum.splits)

lemma record_metrics_reads:
  "sleeps (snd (record_metrics K E vs r)) = []"
  "limiter_calls (snd (record_metrics K E vs r)) = []"
  "logged l (snd (record_metrics K E vs r)) = []"
  "set (stages (snd (record_metrics K E vs r))) \<subseteq> {4}"
  by (simp_all add: record_metrics_def Let_def and_then_snd record_hist_reads
      reads_append split: sum.splits)

lemmas example_defs =
  example_config_def example_env_def example_constants_def example_request_def
  ok_response_def denied_response_def mk_Response_def new_RequestContext_def

lemmas stage_defs =
  get_response_def apply_limits_def lookup_limiter_def limiters_def dict_get_def
  dict_get_default_def add_latency_def record_metrics_def and_then_def record_hist_def Let_def
  int_truediv_1000_zero example_floats

subsection \<open>The paths of the handler\<close>

lemma catchall_producer_raises:
  assumes "get_response cfg E (new_RequestContext cfg req) = ((Inl e, vs), evs1)"
  shows "catchall K cfg E req = (mk_Response [] 500, handling_log req # evs1 @ [error_log e])"
  using assms by (simp add: catchall_def catchall_try_def Let_def)

lemma catchall_no_response:
  assumes "get_response cfg E (new_RequestContext cfg req) = ((Inr None, vs), evs1)"
  shows "catchall K cfg E req = (mk_Response [] 500, handling_log req # evs1 @ [no_response_log req])"
  using assms by (simp add: catchall_def catchall_try_def Let_def)

lemma catchall_limiter_raises:
  assumes "get_response cfg E (new_RequestContext cfg req) = ((Inr (Some response), vs), evs1)"
    and "apply_limits K E (new_RequestContext cfg req\<lparr>values' := vs\<rparr>) response = ((Inl e, vs2), evs2)"
  shows "catchall K cfg E req = (mk_Response [] 500, handling_log req # evs1 @ evs2 @ [error_log e])"
  using assms by (simp add: catchall_def catchall_try_def Let_def)

lemma catchall_reached:
  assumes "get_response cfg E (new_RequestContext cfg req) = ((Inr (Some response), vs), evs1)"
    and "apply_limits K E (new_RequestContext cfg req\<lparr>values' := vs\<rparr>) response = ((Inr final, vs2), evs2)"
  shows "catchall K cfg E req =
     (case fst (add_latency K E vs2 final) of
        Inl e \<Rightarrow> (mk_Response [] 500,
                  handling_log req # evs1 @ evs2 @ snd (add_latency K E vs2 final) @ [error_log e])
      | Inr u \<Rightarrow>
         (case fst (record_metrics K E vs2 final) of
            Inl e \<Rightarrow> (mk_Response [] 500,
                      handling_log req # evs1 @ evs2 @ snd (add_latency K E vs2 final) @
                      snd (record_metrics K E vs2 final) @ [error_log e])
          | Inr u \<Rightarrow> (final,
                      handling_log req # evs1 @ evs2 @ snd (add_latency K E vs2 final) @
                      snd (record_metrics K E vs2 final))))"
proof (cases "add_latency K E vs2 final")
  case (Pair a evs3)
  show ?thesis
  proof (cases "record_metrics K E vs2 final")
    case m: (Pair b evs4)
    show ?thesis using assms Pair m
      by (cases a; cases b) (simp_all add: catchall_def catchall_try_def Let_def)
  qed
qed


lemma catchall_observations_reached:
  assumes "get_response cfg E (new_RequestContext cfg req) = ((Inr (Some response), vs), evs1)"
    and "apply_limits K E (new_RequestContext cfg req\<lparr>values' := vs\<rparr>) response = ((Inr final, vs2), evs2)"
  shows "observations h (snd (catchall K cfg E req)) =
     (case fst (add_latency K E vs2 final) of
        Inl e \<Rightarrow> []
      | Inr u \<Rightarrow> observations h (snd (record_metrics K E vs2 final)))"
proof -
  have a: "observations h evs1 = []"
    using get_response_reads(2)[of h cfg E "new_RequestContext cfg req"] assms(1) by simp
  have b: "observations h evs2 = []"
    using apply_limits_reads(2)[of h K E "new_RequestContext cfg req\<lparr>values' := vs\<rparr>" response] assms(2)
    by simp
  show ?thesis
    by (simp add: catchall_reached[OF assms] observations_append a b add_latency_reads
        error_log_def handling_log_def split: sum.splits)
qed

subsection \<open>What the metrics stage observes\<close>

lemma record_metrics_observations:
  "observations h (snd (record_metrics K E vs r)) =
    (let base_duration_s = fsub (base_end_time E) (start_time E);
         deployment_name = dict_get vs (SIMULATOR_KEY_DEPLOYMENT_NAME K);
         tokens_used = dict_get vs (SIMULATOR_KEY_OPENAI_TOKENS K);
         latency_attributes =
            [(''status_code'', PInt (status_code r)), (''deployment'', deployment_name)];
         ok1 = (histogram_record E histogram_latency_base (PFloat base_duration_s) latency_attributes = None);
         ok2 = (histogram_record E histogram_latency_full
                  (PFloat (fsub (full_end_time E) (start_time E))) latency_attributes = None);
         ok3 = (histogram_record E histogram_tokens_requested tokens_used
                  [(''deployment'', deployment_name)] = None);
         ok4 = (histogram_record E histogram_tokens_used tokens_used
                  [(''deployment'', deployment_name)] = None)
     in case h of
          histogram_latency_base \<Rightarrow> if ok1 then [PFloat base_duration_s] else []
        | histogram_latency_full \<Rightarrow>
            if ok1 \<and> ok2 then [PFloat (fsub (full_end_time E) (start_time E))] else []
        | histogram_tokens_requested \<Rightarrow>
            if ok1 \<and> ok2 \<and> truthy tokens_used \<and> ok3 then [tokens_used] else []
        | histogram_tokens_used \<Rightarrow>
            if ok1 \<and> ok2 \<and> truthy tokens_used \<and> ok3 \<and> status_code r < 300 \<and> ok4
            then [tokens_used] else [])"
  by (cases h)
     (simp_all add: record_metrics_def Let_def and_then_snd observations_append
        record_hist_observations record_hist_fst split: sum.splits,
      (simp_all add: record_hist_def split: option.splits)?)

lemma record_metrics_ok:
  "fst (record_metrics K E vs r) = Inr () \<longleftrightarrow>
    (let base_duration_s = fsub (base_end_time E) (start_time E);
         deployment_name = dict_get vs (SIMULATOR_KEY_DEPLOYMENT_NAME K);
         tokens_used = dict_get vs (SIMULATOR_KEY_OPENAI_TOKENS K);
         latency_attributes =
            [(''status_code'', PInt (status_code r)), (''deployment'', deployment_name)]
     in histogram_record E histogram_latency_base (PFloat base_duration_s) latency_attributes = None \<and>
        histogram_record E histogram_latency_full
                  (PFloat (fsub (full_end_time E) (start_time E))) latency_attributes = None \<and>
        (truthy tokens_used \<longrightarrow>
           histogram_record E histogram_tokens_requested tokens_used
                  [(''deployment'', deployment_name)] = None \<and>
           (status_code r < 300 \<longrightarrow>
              histogram_record E histogram_tokens_used tokens_used
                  [(''deployment'', deployment_name)] = None)))"
  by (simp add: record_metrics_def Let_def and_then_ok record_hist_fst)

lemma record_metrics_at_most_once:
  "length (observations h (snd (record_metrics K E vs r))) \<le> 1"
  by (cases h) (simp_all add: record_metrics_observations Let_def)

lemma catchall_observations_cases:
  "observations h (snd (catchall K cfg E req)) = [] \<or>
   (\<exists>vs r. observations h (snd (catchall K cfg E req)) =
      observations h (snd (record_metrics K E vs r)))"
proof (cases "get_response cfg E (new_RequestContext cfg req)")
  case (Pair res evs1)
  obtain out vs where res: "res = (out, vs)" by (cases res)
  have e1: "observations h evs1 = []"
    using get_response_reads(2)[of h cfg E "new_RequestContext cfg req"] Pair by simp
  show ?thesis
  proof (cases out)
    case (Inl e)
    show ?thesis
      using catchall_producer_raises[of cfg E req e vs evs1 K] Pair res Inl e1
      by (simp add: observations_append handling_log_def error_log_def)
  next
    case (Inr ro)
    show ?thesis
    proof (cases ro)
      case None
      show ?thesis
        using catchall_no_response[of cfg E req vs evs1 K] Pair res Inr None e1
        by (simp add: observations_append handling_log_def no_response_log_def)
    next
      case (Some response)
      have g: "get_response cfg E (new_RequestContext cfg req) = ((Inr (Some response), vs), evs1)"
        using Pair res Inr Some by simp
      show ?thesis
      proof (cases "apply_limits K E (new_RequestContext cfg req\<lparr>values' := vs\<rparr>) response")
        case l: (Pair lres evs2)
        obtain lout vs2 where lres: "lres = (lout, vs2)" by (cases lres)
        have e2: "observations h evs2 = []"
          using apply_limits_reads(2)[of h K E "new_RequestContext cfg req\<lparr>values' := vs\<rparr>" response] l
          by simp
        show ?thesis
        proof (cases lout)
          case (Inl e)
          show ?thesis
            using catchall_limiter_raises[OF g, of K e vs2 evs2] l lres Inl e1 e2
            by (simp add: observations_append handling_log_def error_log_def)
        next
          case (Inr final)
          have a: "apply_limits K E (new_RequestContext cfg req\<lparr>values' := vs\<rparr>) response =
              ((Inr final, vs2), evs2)"
            using l lres Inr by simp
          show ?thesis
            unfolding catchall_observations_reached[OF g a]
            by (auto split: sum.splits)
        qed
      qed
    qed
  qed
qed

subsection \<open>The order of the stages\<close>

lemma sorted_const: "set xs \<subseteq> {n} \<Longrightarrow> sorted (xs :: nat list)"
  by (induction xs) auto

lemma sorted_stage_blocks:
  assumes "set a \<subseteq> {1}" "set b \<subseteq> {2}" "set c \<subseteq> {3}" "set d \<subseteq> {4::nat}"
  shows "sorted (a @ b @ c @ d)"
  using assms sorted_const[of a 1] sorted_const[of b 2] sorted_const[of c 3] sorted_const[of d 4]
  by (fastforce simp add: sorted_append)

lemma catchall_stages_reached:
  assumes "get_response cfg E (new_RequestContext cfg req) = ((Inr (Some response), vs), evs1)"
    and "apply_limits K E (new_RequestContext cfg req\<lparr>values' := vs\<rparr>) response = ((Inr final, vs2), evs2)"
  shows "sorted (stages (snd (catchall K cfg E req)))"
proof -
  have a: "set (stages evs1) \<subseteq> {1}"
    using get_response_reads(5)[of cfg E "new_RequestContext cfg req"] assms(1) by simp
  have b: "set (stages evs2) \<subseteq> {2}"
    using apply_limits_reads(4)[of K E "new_RequestContext cfg req\<lparr>values' := vs\<rparr>" response] assms(2)
    by simp
  note c = add_latency_reads(4)[of K E vs2 final]
  note d = record_metrics_reads(4)[of K E vs2 final]
  have e: "set [] \<subseteq> {4::nat}" by simp
  show ?thesis
    using sorted_stage_blocks[OF a b c d] sorted_stage_blocks[OF a b c e]
    by (simp add: catchall_reached[OF assms] stages_append error_log_def handling_log_def
        split: sum.splits)
qed

lemma catchall_limiter_calls_reached:
  assumes "get_response cfg E (new_RequestContext cfg req) = ((Inr (Some response), vs), evs1)"
    and "apply_limits K E (new_RequestContext cfg req\<lparr>values' := vs\<rparr>) response = ((Inr final, vs2), evs2)"
  shows "limiter_calls (snd (catchall K cfg E req)) = limiter_calls evs2"
proof -
  have a: "limiter_calls evs1 = []"
    using get_response_reads(3)[of cfg E "new_RequestContext cfg req"] assms(1) by simp
  show ?thesis
    by (simp add: catchall_reached[OF assms] limiter_calls_append a add_latency_reads
        record_metrics_reads error_log_def handling_log_def split: sum.splits)
qed

lemma catchall_completes:
  assumes "get_response cfg E (new_RequestContext cfg req) = ((Inr (Some response), vs), evs1)"
    and "apply_limits K E (new_RequestContext cfg req\<lparr>values' := vs\<rparr>) response = ((Inr final, vs2), evs2)"
    and "fst (add_latency K E vs2 final) = Inr ()"
    and "fst (record_metrics K E vs2 final) = Inr ()"
  shows "fst (catchall K cfg E req) = final"
    and "logged ERROR (snd (catchall K cfg E req)) = []"
proof -
  have a: "logged ERROR evs1 = []"
    using get_response_reads(4)[of ERROR cfg E "new_RequestContext cfg req"] assms(1) by simp
  have b: "logged ERROR evs2 = []"
    using apply_limits_reads(3)[of K E "new_RequestContext cfg req\<lparr>values' := vs\<rparr>" response] assms(2)
    by simp
  show "fst (catchall K cfg E req) = final"
    using assms(3,4) by (simp add: catchall_reached[OF assms(1,2)])
  show "logged ERROR (snd (catchall K cfg E req)) = []"
    using assms(3,4)
    by (simp add: catchall_reached[OF assms(1,2)] logged_append a b add_latency_reads
        record_metrics_reads handling_log_def)
qed

subsection \<open>The latency emulation\<close>



subsection \<open>The dispatch fault\<close>



subsection \<open>The token histograms\<close>

text \<open>
  C9. Take a request that reaches the metrics stage with a token count in its context that
  is false in the sense of Python (0, or \<^verbatim>\<open>None\<close>, or no count at all). Then neither the
  histogram of the tokens requested nor the histogram of the tokens used gets an
  observation, whatever the status of the response: the key alone does not trigger a
  recording.
\<close>

theorem falsy_tokens_not_recorded:
  assumes "get_response cfg E (new_RequestContext cfg req) = ((Inr (Some response), vs), evs1)"
    and "apply_limits K E (new_RequestContext cfg req\<lparr>values' := vs\<rparr>) response = ((Inr final, vs2), evs2)"
    and "\<not> truthy (dict_get vs2 (SIMULATOR_KEY_OPENAI_TOKENS K))"
  shows "observations histogram_tokens_requested (snd (catchall K cfg E req)) = [] \<and>
         observations histogram_tokens_used (snd (catchall K cfg E req)) = []"
  unfolding catchall_observations_reached[OF assms(1,2)]
  using assms(3) by (simp add: record_metrics_observations Let_def split: sum.splits)

theorem falsy_tokens_not_recorded_witness:
  "status_code ok_response < 300 \<and>
   observations histogram_tokens_requested (snd (catchall example_constants (example_config ''generate'')
      (example_env (Some ok_response) [''OpenAITokens'' \<mapsto> PInt 0] None None)
      (example_request ''POST'' ''/foo'' (Some ''secret'')))) = [] \<and>
   observations histogram_tokens_used (snd (catchall example_constants (example_config ''generate'')
      (example_env (Some ok_response) [''OpenAITokens'' \<mapsto> PInt 0] None None)
      (example_request ''POST'' ''/foo'' (Some ''secret'')))) = []"
proof -
  let ?cfg = "example_config ''generate''"
  let ?vs = "[''OpenAITokens'' \<mapsto> PInt 0]"
  let ?E = "example_env (Some ok_response) ?vs None None"
  let ?req = "example_request ''POST'' ''/foo'' (Some ''secret'')"
  have h1: "get_response ?cfg ?E (new_RequestContext ?cfg ?req) =
      ((Inr (Some ok_response), ?vs), [Call_invoke_generators (new_RequestContext ?cfg ?req)])"
    by (simp add: get_response_def example_config_def example_env_def)
  have h2: "apply_limits example_constants ?E (new_RequestContext ?cfg ?req\<lparr>values' := ?vs\<rparr>) ok_response =
      ((Inr ok_response, ?vs), [Log DEBUG ''No limiter found for response: %s'' [ArgStr ''/foo'']])"
    by (simp add: stage_defs example_defs)
  have h3: "\<not> truthy (dict_get ?vs (SIMULATOR_KEY_OPENAI_TOKENS example_constants))"
    by (simp add: dict_get_def dict_get_default_def example_constants_def)
  show ?thesis
    using falsy_tokens_not_recorded[OF h1 h2 h3]
    by (simp add: ok_response_def mk_Response_def)
qed

text \<open>
  C3, as stated, fails: with a token count of 0 in the context and the status 200, the
  context carries a token count and the histogram of the tokens requested gets no
  observation.
\<close>

theorem tokens_presence_counterexample:
  "\<not> (observations histogram_tokens_requested (snd (catchall example_constants (example_config ''generate'')
        (example_env (Some ok_response) [''OpenAITokens'' \<mapsto> PInt 0] None None)
        (example_request ''POST'' ''/foo'' (Some ''secret'')))) \<noteq> []
      \<longleftrightarrow> [''OpenAITokens'' \<mapsto> PInt 0] (SIMULATOR_KEY_OPENAI_TOKENS example_constants) \<noteq> None)"
  by (simp add: catchall_def catchall_try_def stage_defs example_defs handling_log_def)

text \<open>
  C3, amended. Take a request that reaches the metrics stage and in which neither the
  latency stage nor a call of \<^verbatim>\<open>record\<close> raises. The histogram of the tokens used gets
  an observation (one, of the token count) if and only if the token count of the context
  is true in the sense of Python (present and not 0) and the final status is below 300;
  the histogram of the tokens requested gets one if and only if the token count is true,
  whatever the status.
\<close>

theorem tokens_recorded:
  assumes "get_response cfg E (new_RequestContext cfg req) = ((Inr (Some response), vs), evs1)"
    and "apply_limits K E (new_RequestContext cfg req\<lparr>values' := vs\<rparr>) response = ((Inr final, vs2), evs2)"
    and "fst (add_latency K E vs2 final) = Inr ()"
    and "fst (record_metrics K E vs2 final) = Inr ()"
  shows "observations histogram_tokens_used (snd (catchall K cfg E req)) =
           (if truthy (dict_get vs2 (SIMULATOR_KEY_OPENAI_TOKENS K)) \<and> status_code final < 300
            then [dict_get vs2 (SIMULATOR_KEY_OPENAI_TOKENS K)] else []) \<and>
         observations histogram_tokens_requested (snd (catchall K cfg E req)) =
           (if truthy (dict_get vs2 (SIMULATOR_KEY_OPENAI_TOKENS K))
            then [dict_get vs2 (SIMULATOR_KEY_OPENAI_TOKENS K)] else [])"
  unfolding catchall_observations_reached[OF assms(1,2)]
  using assms(3,4) by (auto simp add: record_metrics_observations record_metrics_ok Let_def)

theorem tokens_recorded_witness:
  "observations histogram_tokens_used (snd (catchall example_constants (example_config ''generate'')
      (example_env (Some ok_response)
         [''Limiter'' \<mapsto> PStr ''openai'', ''OpenAITokens'' \<mapsto> PInt 42]
         (Some denied_response) None)
      (example_request ''POST'' ''/foo'' (Some ''secret'')))) = [] \<and>
   observations histogram_tokens_requested (snd (catchall example_constants (example_config ''generate'')
      (example_env (Some ok_response)
         [''Limiter'' \<mapsto> PStr ''openai'', ''OpenAITokens'' \<mapsto> PInt 42]
         (Some denied_response) None)
      (example_request ''POST'' ''/foo'' (Some ''secret'')))) = [PInt 42]"
proof -
  let ?cfg = "example_config ''generate''"
  let ?vs = "[''Limiter'' \<mapsto> PStr ''openai'', ''OpenAITokens'' \<mapsto> PInt 42]"
  let ?E = "example_env (Some ok_response) ?vs (Some denied_response) None"
  let ?req = "example_request ''POST'' ''/foo'' (Some ''secret'')"
  let ?c = "new_RequestContext ?cfg ?req\<lparr>values' := ?vs\<rparr>"
  have h1: "get_response ?cfg ?E (new_RequestContext ?cfg ?req) =
      ((Inr (Some ok_response), ?vs), [Call_invoke_generators (new_RequestContext ?cfg ?req)])"
    by (simp add: get_response_def example_config_def example_env_def)
  have h2: "apply_limits example_constants ?E ?c ok_response =
      ((Inr denied_response, ?vs), [Call_limiter (PStr ''openai'') ?c ok_response])"
    by (simp add: stage_defs example_defs)
  have h3: "fst (add_latency example_constants ?E ?vs denied_response) = Inr ()"
    by (simp add: stage_defs example_defs)
  have h4: "fst (record_metrics example_constants ?E ?vs denied_response) = Inr ()"
    by (simp add: stage_defs example_defs)
  show ?thesis
    using tokens_recorded[OF h1 h2 h3 h4]
    by (simp add: dict_get_def dict_get_default_def example_constants_def
        denied_response_def mk_Response_def)
qed

subsection \<open>How often the histograms are recorded\<close>

text \<open>
  C2, as stated, fails: in mode \<^verbatim>\<open>replay\<close> with no recorded exchange for the request,
  the handler answers 500 and the histogram of the base latency gets no observation,
  not one.
\<close>

theorem metrics_every_path_counterexample:
  "\<not> (length (observations histogram_latency_base
         (snd (catchall example_constants (example_config ''replay'')
            (example_env None Map.empty None None)
            (example_request ''GET'' ''/foo'' (Some ''secret''))))) = 1)"
  by (simp add: catchall_def catchall_try_def stage_defs example_defs handling_log_def
      no_response_log_def)

text \<open>
  C2, amended. For every request that passes authentication, each of the four histograms
  gets at most one observation, whatever path the request takes. The two latency
  histograms get exactly one observation each when the producer yields a response and
  no stage raises. When the producer yields no response (the dispatch fault) no
  histogram gets an observation.
\<close>

theorem metrics_recorded_once:
  "length (observations h (snd (catchall K cfg E req))) \<le> 1 \<and>
   (\<forall>response vs evs1 final vs2 evs2.
      get_response cfg E (new_RequestContext cfg req) = ((Inr (Some response), vs), evs1) \<longrightarrow>
      apply_limits K E (new_RequestContext cfg req\<lparr>values' := vs\<rparr>) response = ((Inr final, vs2), evs2) \<longrightarrow>
      fst (add_latency K E vs2 final) = Inr () \<longrightarrow>
      fst (record_metrics K E vs2 final) = Inr () \<longrightarrow>
        length (observations histogram_latency_base (snd (catchall K cfg E req))) = 1 \<and>
        length (observations histogram_latency_full (snd (catchall K cfg E req))) = 1) \<and>
   (\<forall>vs evs1.
      get_response cfg E (new_RequestContext cfg req) = ((Inr None, vs), evs1) \<longrightarrow>
        observations h (snd (catchall K cfg E req)) = [])"
proof (intro conjI allI impI)
  show "length (observations h (snd (catchall K cfg E req))) \<le> 1"
    using catchall_observations_cases[of h K cfg E req] record_metrics_at_most_once[of h K E]
    by auto
next
  fix response vs evs1 final vs2 evs2
  assume g: "get_response cfg E (new_RequestContext cfg req) = ((Inr (Some response), vs), evs1)"
    and a: "apply_limits K E (new_RequestContext cfg req\<lparr>values' := vs\<rparr>) response = ((Inr final, vs2), evs2)"
    and l: "fst (add_latency K E vs2 final) = Inr ()"
    and m: "fst (record_metrics K E vs2 final) = Inr ()"
  show "length (observations histogram_latency_base (snd (catchall K cfg E req))) = 1"
    unfolding catchall_observations_reached[OF g a]
    using l m by (simp add: record_metrics_observations record_metrics_ok Let_def)
  show "length (observations histogram_latency_full (snd (catchall K cfg E req))) = 1"
    unfolding catchall_observations_reached[OF g a]
    using l m by (simp add: record_metrics_observations record_metrics_ok Let_def)
next
  fix vs evs1
  assume g: "get_response cfg E (new_RequestContext cfg req) = ((Inr None, vs), evs1)"
  have e1: "observations h evs1 = []"
    using get_response_reads(2)[of h cfg E "new_RequestContext cfg req"] g by simp
  show "observations h (snd (catchall K cfg E req)) = []"
    unfolding catchall_no_response[OF g]
    by (simp add: observations_append e1 handling_log_def no_response_log_def)
qed

theorem metrics_recorded_once_witness:
  "length (observations histogram_latency_base (snd (catchall example_constants (example_config ''generate'')
      (example_env (Some ok_response) Map.empty None None)
      (example_request ''POST'' ''/foo'' (Some ''secret''))))) = 1 \<and>
   length (observations histogram_latency_full (snd (catchall example_constants (example_config ''generate'')
      (example_env (Some ok_response) Map.empty None None)
      (example_request ''POST'' ''/foo'' (Some ''secret''))))) = 1"
proof -
  let ?cfg = "example_config ''generate''"
  let ?vs = "Map.empty :: vals"
  let ?E = "example_env (Some ok_response) ?vs None None"
  let ?req = "example_request ''POST'' ''/foo'' (Some ''secret'')"
  have h1: "get_response ?cfg ?E (new_RequestContext ?cfg ?req) =
      ((Inr (Some ok_response), ?vs), [Call_invoke_generators (new_RequestContext ?cfg ?req)])"
    by (simp add: get_response_def example_config_def example_env_def)
  have h2: "apply_limits example_constants ?E (new_RequestContext ?cfg ?req\<lparr>values' := ?vs\<rparr>) ok_response =
      ((Inr ok_response, ?vs), [Log DEBUG ''No limiter found for response: %s'' [ArgStr ''/foo'']])"
    by (simp add: stage_defs example_defs)
  have h3: "fst (add_latency example_constants ?E ?vs ok_response) = Inr ()"
    by (simp add: stage_defs example_defs)
  have h4: "fst (record_metrics example_constants ?E ?vs ok_response) = Inr ()"
    by (simp add: stage_defs example_defs)
  show ?thesis
    using metrics_recorded_once[of histogram_latency_base example_constants ?cfg ?E ?req] h1 h2 h3 h4
    by blast
qed

subsection \<open>A failure while recording\<close>

text \<open>
  C7, as stated, fails: the producer answers 200, no limiter applies, and
  \<^verbatim>\<open>record\<close> raises on the histogram of the full latency. The response that reached
  the metrics stage is the producer's; the handler returns a bare 500 response instead.
\<close>

theorem recording_failure_counterexample:
  "fst (apply_limits example_constants
          (example_env (Some ok_response) Map.empty None (Some histogram_latency_full))
          (new_RequestContext (example_config ''generate'')
             (example_request ''POST'' ''/foo'' (Some ''secret''))\<lparr>values' := Map.empty\<rparr>)
          ok_response) = (Inr ok_response, Map.empty) \<and>
   fst (record_metrics example_constants
          (example_env (Some ok_response) Map.empty None (Some histogram_latency_full))
          Map.empty ok_response) = Inl (Fault ''invalid attribute'') \<and>
   fst (catchall example_constants (example_config ''generate'')
          (example_env (Some ok_response) Map.empty None (Some histogram_latency_full))
          (example_request ''POST'' ''/foo'' (Some ''secret''))) = mk_Response [] 500 \<and>
   mk_Response [] 500 \<noteq> ok_response"
  by (simp add: catchall_def catchall_try_def stage_defs example_defs)

text \<open>
  C7, amended. For every request that reaches the metrics stage with a final response, a
  failure raised while recording metrics never leaves the handler as an exception: the
  handler logs the error as its last event and returns a bare 500 response in place of
  the final response.
\<close>

theorem recording_failure_is_500:
  assumes "get_response cfg E (new_RequestContext cfg req) = ((Inr (Some response), vs), evs1)"
    and "apply_limits K E (new_RequestContext cfg req\<lparr>values' := vs\<rparr>) response = ((Inr final, vs2), evs2)"
    and "fst (add_latency K E vs2 final) = Inr ()"
    and "fst (record_metrics K E vs2 final) = Inl e"
  shows "fst (catchall K cfg E req) = mk_Response [] 500 \<and>
         last (snd (catchall K cfg E req)) = error_log e"
  unfolding catchall_reached[OF assms(1,2)] using assms(3,4) by simp

theorem recording_failure_is_500_witness:
  "catchall example_constants (example_config ''generate'')
      (example_env (Some ok_response) Map.empty None (Some histogram_latency_full))
      (example_request ''POST'' ''/foo'' (Some ''secret'')) =
    (mk_Response [] 500,
     [handling_log (example_request ''POST'' ''/foo'' (Some ''secret'')),
      Call_invoke_generators (new_RequestContext (example_config ''generate'')
         (example_request ''POST'' ''/foo'' (Some ''secret''))),
      Log DEBUG ''No limiter found for response: %s'' [ArgStr ''/foo''],
      Record histogram_latency_base (PFloat float_0_05)
        [(''status_code'', PInt 200), (''deployment'', PNone)],
      error_log (Fault ''invalid attribute'')])"
proof -
  let ?cfg = "example_config ''generate''"
  let ?vs = "Map.empty :: vals"
  let ?E = "example_env (Some ok_response) ?vs None (Some histogram_latency_full)"
  let ?req = "example_request ''POST'' ''/foo'' (Some ''secret'')"
  have h1: "get_response ?cfg ?E (new_RequestContext ?cfg ?req) =
      ((Inr (Some ok_response), ?vs), [Call_invoke_generators (new_RequestContext ?cfg ?req)])"
    by (simp add: get_response_def example_config_def example_env_def)
  have h2: "apply_limits example_constants ?E (new_RequestContext ?cfg ?req\<lparr>values' := ?vs\<rparr>) ok_response =
      ((Inr ok_response, ?vs), [Log DEBUG ''No limiter found for response: %s'' [ArgStr ''/foo'']])"
    by (simp add: stage_defs example_defs)
  have h3: "fst (add_latency example_constants ?E ?vs ok_response) = Inr ()"
    by (simp add: stage_defs example_defs)
  have h4: "fst (record_metrics example_constants ?E ?vs ok_response) = Inl (Fault ''invalid attribute'')"
    by (simp add: stage_defs example_defs)
  have ev: "snd (catchall example_constants ?cfg ?E ?req) =
     [handling_log ?req, Call_invoke_generators (new_RequestContext ?cfg ?req),
      Log DEBUG ''No limiter found for response: %s'' [ArgStr ''/foo''],
      Record histogram_latency_base (PFloat float_0_05)
        [(''status_code'', PInt 200), (''deployment'', PNone)],
      error_log (Fault ''invalid attribute'')]"
    by (simp add: catchall_def catchall_try_def stage_defs example_defs)
  show ?thesis
    using recording_failure_is_500[OF h1 h2 h3 h4] ev
    by (simp add: prod_eq_iff)
qed

subsection \<open>The limiter stage\<close>

text \<open>
  C6. Take a request for which the producer yields a response and the limiter stage returns
  (the limiter, if one is called, does not raise); \<open>final\<close> is the response after that
  stage. When the limiter key of the context names a limiter of the registry, that
  limiter is called once, with the context and the producer's response, and \<open>final\<close> is
  its replacement when it returns one and the producer's response when it returns
  nothing. When the key is absent, false or names no limiter, no limiter is called, the
  response and the context pass through unchanged and the only event is a log line at
  level DEBUG. When the later stages do not raise, the handler returns \<open>final\<close> and logs
  no error. The events of the handler are ordered by stage: every call of a limiter
  comes before every event of the latency stage and of the metrics stage.
\<close>

theorem limiter_replaces_or_passes:
  assumes g: "get_response cfg E (new_RequestContext cfg req) = ((Inr (Some response), vs), evs1)"
    and a: "apply_limits K E (new_RequestContext cfg req\<lparr>values' := vs\<rparr>) response =
              ((Inr final, vs2), evs2)"
  shows "(\<forall>limiter. lookup_limiter E (dict_get vs (SIMULATOR_KEY_LIMITER K)) = Some limiter \<longrightarrow>
            limiter_calls (snd (catchall K cfg E req)) =
              [Call_limiter (dict_get vs (SIMULATOR_KEY_LIMITER K))
                 (new_RequestContext cfg req\<lparr>values' := vs\<rparr>) response] \<and>
            (\<forall>r. fst (limiter (new_RequestContext cfg req\<lparr>values' := vs\<rparr>) response) = Inr (Some r)
                 \<longrightarrow> final = r) \<and>
            (fst (limiter (new_RequestContext cfg req\<lparr>values' := vs\<rparr>) response) = Inr None
                 \<longrightarrow> final = response)) \<and>
         (lookup_limiter E (dict_get vs (SIMULATOR_KEY_LIMITER K)) = None \<longrightarrow>
            final = response \<and> vs2 = vs \<and>
            limiter_calls (snd (catchall K cfg E req)) = [] \<and>
            evs2 = [Log DEBUG ''No limiter found for response: %s'' [ArgStr (url_path req)]]) \<and>
         (fst (add_latency K E vs2 final) = Inr () \<longrightarrow>
          fst (record_metrics K E vs2 final) = Inr () \<longrightarrow>
            fst (catchall K cfg E req) = final \<and>
            logged ERROR (snd (catchall K cfg E req)) = []) \<and>
         sorted (stages (snd (catchall K cfg E req)))"
proof (intro conjI allI impI)
  let ?c = "new_RequestContext cfg req\<lparr>values' := vs\<rparr>"
  let ?n = "dict_get vs (SIMULATOR_KEY_LIMITER K)"
  note calls = catchall_limiter_calls_reached[OF g a]
  {
    fix limiter
    assume f: "lookup_limiter E ?n = Some limiter"
    show "limiter_calls (snd (catchall K cfg E req)) = [Call_limiter ?n ?c response]"
      unfolding calls using a f
      by (auto simp add: apply_limits_def Let_def new_RequestContext_def
          split: prod.splits sum.splits option.splits)
    show "final = response" if "fst (limiter ?c response) = Inr None"
      using a f that
      by (auto simp add: apply_limits_def Let_def new_RequestContext_def
          split: prod.splits sum.splits option.splits)
    show "final = r" if "fst (limiter ?c response) = Inr (Some r)" for r
      using a f that
      by (auto simp add: apply_limits_def Let_def new_RequestContext_def
          split: prod.splits sum.splits option.splits)
  }
  {
    assume n: "lookup_limiter E ?n = None"
    show "final = response" "vs2 = vs"
      "evs2 = [Log DEBUG ''No limiter found for response: %s'' [ArgStr (url_path req)]]"
      using a n by (simp_all add: apply_limits_def Let_def new_RequestContext_def)
    then show "limiter_calls (snd (catchall K cfg E req)) = []"
      unfolding calls by simp
  }
  {
    assume l: "fst (add_latency K E vs2 final) = Inr ()"
      and m: "fst (record_metrics K E vs2 final) = Inr ()"
    show "fst (catchall K cfg E req) = final"
      by (rule catchall_completes(1)[OF g a l m])
    show "logged ERROR (snd (catchall K cfg E req)) = []"
      by (rule catchall_completes(2)[OF g a l m])
  }
  show "sorted (stages (snd (catchall K cfg E req)))"
    by (rule catchall_stages_reached[OF g a])
qed

theorem limiter_replaces_or_passes_witness:
  "fst (catchall example_constants (example_config ''generate'')
      (example_env (Some ok_response) [''Limiter'' \<mapsto> PStr ''openai''] (Some denied_response) None)
      (example_request ''POST'' ''/foo'' (Some ''secret''))) = denied_response \<and>
   limiter_calls (snd (catchall example_constants (example_config ''generate'')
      (example_env (Some ok_response) [''Limiter'' \<mapsto> PStr ''openai''] (Some denied_response) None)
      (example_request ''POST'' ''/foo'' (Some ''secret'')))) =
     [Call_limiter (PStr ''openai'')
        (new_RequestContext (example_config ''generate'')
           (example_request ''POST'' ''/foo'' (Some ''secret''))
           \<lparr>values' := [''Limiter'' \<mapsto> PStr ''openai'']\<rparr>)
        ok_response] \<and>
   sorted (stages (snd (catchall example_constants (example_config ''generate'')
      (example_env (Some ok_response) [''Limiter'' \<mapsto> PStr ''openai''] (Some denied_response) None)
      (example_request ''POST'' ''/foo'' (Some ''secret'')))))"
proof -
  let ?cfg = "example_config ''generate''"
  let ?vs = "[''Limiter'' \<mapsto> PStr ''openai'']"
  let ?E = "example_env (Some ok_response) ?vs (Some denied_response) None"
  let ?req = "example_request ''POST'' ''/foo'' (Some ''secret'')"
  let ?c = "new_RequestContext ?cfg ?req\<lparr>values' := ?vs\<rparr>"
  have h1: "get_response ?cfg ?E (new_RequestContext ?cfg ?req) =
      ((Inr (Some ok_response), ?vs), [Call_invoke_generators (new_RequestContext ?cfg ?req)])"
    by (simp add: get_response_def example_config_def example_env_def)
  have h2: "apply_limits example_constants ?E ?c ok_response =
      ((Inr denied_response, ?vs), [Call_limiter (PStr ''openai'') ?c ok_response])"
    by (simp add: stage_defs example_defs)
  have h3: "fst (add_latency example_constants ?E ?vs denied_response) = Inr ()"
    by (simp add: stage_defs example_defs)
  have h4: "fst (record_metrics example_constants ?E ?vs denied_response) = Inr ()"
    by (simp add: stage_defs example_defs)
  have h5: "lookup_limiter ?E (dict_get ?vs (SIMULATOR_KEY_LIMITER example_constants)) =
      Some (openai_limiter ?E)"
    by (simp add: lookup_limiter_def limiters_def dict_get_def dict_get_default_def
        example_constants_def)
  have n: "dict_get ?vs (SIMULATOR_KEY_LIMITER example_constants) = PStr ''openai''"
    by (simp add: dict_get_def dict_get_default_def example_constants_def)
  show ?thesis
    using limiter_replaces_or_passes[OF h1 h2] h3 h4 h5 n
    by simp
qed

subsection \<open>The credential validator and the routes\<close>

text \<open>
  The validator on carriers and a secret that are ASCII: a non-empty authorization
  carrier is accepted whatever it holds; otherwise the api-key carrier, then the
  subscription-key carrier, is accepted when it is non-empty and equal to the secret;
  otherwise the validator raises the 401 exception.
\<close>

lemma validate_api_key_reads:
  "logged ERROR (snd (validate_api_key cfg a k s)) = []"
  "Call_save_recordings \<notin> set (snd (validate_api_key cfg a k s))"
  by (simp_all add: validate_api_key_def split: sum.splits bool.splits)

lemma validate_api_key_bearer:
  "str_truthy a \<Longrightarrow> fst (validate_api_key cfg a k s) = Inr True"
  by (simp add: validate_api_key_def)

lemma key_matches_ascii:
  assumes "is_ascii secret" and "\<forall>x. k = Some x \<longrightarrow> is_ascii x"
  shows "key_matches k secret = Inr (str_truthy k \<and> k = Some secret)"
  using assms by (cases k) (auto simp add: compare_digest_def)

lemma validate_api_key_ascii:
  assumes "is_ascii (simulator_api_key cfg)"
    and "\<forall>x. k = Some x \<longrightarrow> is_ascii x"
    and "\<forall>x. s = Some x \<longrightarrow> is_ascii x"
  shows "fst (validate_api_key cfg a k s) =
     (if str_truthy a \<or> (str_truthy k \<and> k = Some (simulator_api_key cfg))
         \<or> (str_truthy s \<and> s = Some (simulator_api_key cfg))
      then Inr True
      else Inl (HTTPException 401 ''Missing or incorrect API Key''))"
proof -
  note km1 = key_matches_ascii[OF assms(1,2)]
  note km2 = key_matches_ascii[OF assms(1,3)]
  show ?thesis
    unfolding validate_api_key_def km1 km2
    by (auto split: bool.splits)
qed

text \<open>
  C4. The claim holds on ASCII carriers (lemmas \<open>validate_api_key_bearer\<close> and
  \<open>validate_api_key_ascii\<close>) and fails on the others: with no authorization carrier and
  an api-key carrier that holds the one character \<open>0xE9\<close>, which matches nothing,
  \<^verbatim>\<open>secrets.compare_digest\<close> raises \<^verbatim>\<open>TypeError\<close>, and so does the validator, where
  the claim asks for the 401 exception. The request still ends before the handler runs.
\<close>

theorem validate_api_key_non_ascii:
  "validate_api_key (example_config ''generate'') None (Some [CHR 0xE9]) None =
     (Inl TypeError, []) \<and>
   app example_constants (example_config ''generate'')
     (example_env (Some ok_response) Map.empty None None)
     (example_request ''POST'' ''/foo'' (Some [CHR 0xE9])) = (Inl TypeError, [])"
  by (simp add: app_def validate_api_key_def compare_digest_def is_ascii_def
      example_config_def example_request_def)

text \<open>
  C8, as stated, fails: in mode \<^verbatim>\<open>record\<close>, when the save of the record/replay
  handler raises, the route has no \<^verbatim>\<open>try\<close> and the exception leaves it; no 200
  response is returned.
\<close>

theorem save_recordings_failure_counterexample:
  "fst (validate_api_key (example_config ''record'') None (Some ''secret'') None) = Inr True \<and>
   fst (app example_constants (example_config ''record'')
      (example_env None Map.empty None None\<lparr>handler_save_recordings := Some (Fault ''disk full'')\<rparr>)
      (example_request ''POST'' ''/++/save-recordings'' (Some ''secret''))) =
     Inl (Fault ''disk full'') \<and>
   fst (app example_constants (example_config ''record'')
      (example_env None Map.empty None None\<lparr>handler_save_recordings := Some (Fault ''disk full'')\<rparr>)
      (example_request ''POST'' ''/++/save-recordings'' (Some ''secret''))) \<noteq>
     Inr (Resp (mk_Response (emoji_tape @ '' Recordings saved'') 200))"
  by (simp add: app_def save_recordings_def validate_api_key_def compare_digest_def is_ascii_def
      example_config_def example_request_def example_env_def)

text \<open>
  C8, amended. Take a \<^verbatim>\<open>POST\<close> of \<^verbatim>\<open>/++/save-recordings\<close> that passes the
  validator. In mode \<^verbatim>\<open>record\<close> the save of the record/replay handler is called; when
  it returns, the answer is the 200 response, and when it raises, its exception leaves
  the route, which does not catch it. In every other mode nothing is saved, the answer
  is the 400 response whose body says that the simulator is not in record mode, and
  nothing is logged at level ERROR.
\<close>

theorem save_recordings_by_mode:
  assumes "http_method req = ''POST''" and "url_path req = ''/++/save-recordings''"
    and "validate_api_key cfg (authorization req) (api_key_header req)
           (ocp_apim_subscription_key_header req) = (Inr True, evs)"
  shows "(simulator_mode cfg = ''record'' \<longrightarrow>
            Call_save_recordings \<in> set (snd (app K cfg E req)) \<and>
            (handler_save_recordings E = None \<longrightarrow>
               fst (app K cfg E req) =
                 Inr (Resp (mk_Response (emoji_tape @ '' Recordings saved'') 200)) \<and>
               snd (app K cfg E req) =
                 evs @ [Log INFO (emoji_tape @ '' Saving recordings...'') [],
                        Call_save_recordings,
                        Log INFO (emoji_tape @ '' Recordings saved'') []]) \<and>
            (\<forall>e. handler_save_recordings E = Some e \<longrightarrow>
               fst (app K cfg E req) = Inl e \<and>
               snd (app K cfg E req) =
                 evs @ [Log INFO (emoji_tape @ '' Saving recordings...'') [],
                        Call_save_recordings])) \<and>
         (simulator_mode cfg \<noteq> ''record'' \<longrightarrow>
            fst (app K cfg E req) =
              Inr (Resp (mk_Response
                (emoji_warning @ '' Not saving recordings as not in record mode'') 400)) \<and>
            Call_save_recordings \<notin> set (snd (app K cfg E req)) \<and>
            logged ERROR (snd (app K cfg E req)) = [])"
proof -
  have e: "logged ERROR evs = []" "Call_save_recordings \<notin> set evs"
    using validate_api_key_reads[of cfg "authorization req" "api_key_header req"
        "ocp_apim_subscription_key_header req"] assms(3)
    by simp_all
  show ?thesis
    using assms e
    by (cases "handler_save_recordings E") (simp_all add: app_def save_recordings_def logged_append)
qed

theorem save_recordings_by_mode_witness:
  "fst (app example_constants (example_config ''record'')
      (example_env None Map.empty None None)
      (example_request ''POST'' ''/++/save-recordings'' (Some ''secret''))) =
     Inr (Resp (mk_Response (emoji_tape @ '' Recordings saved'') 200)) \<and>
   fst (app example_constants (example_config ''replay'')
      (example_env None Map.empty None None)
      (example_request ''POST'' ''/++/save-recordings'' (Some ''secret''))) =
     Inr (Resp (mk_Response (emoji_warning @ '' Not saving recordings as not in record mode'') 400))"
proof -
  let ?req = "example_request ''POST'' ''/++/save-recordings'' (Some ''secret'')"
  let ?E = "example_env None Map.empty None None"
  have m: "http_method ?req = ''POST''" and p: "url_path ?req = ''/++/save-recordings''"
    by (simp_all add: example_request_def)
  have v: "validate_api_key (example_config mode) (authorization ?req) (api_key_header ?req)
           (ocp_apim_subscription_key_header ?req) = (Inr True, [])" for mode
    by (simp add: validate_api_key_def compare_digest_def is_ascii_def example_config_def
        example_request_def)
  have r: "simulator_mode (example_config ''record'') = ''record''"
    and n: "simulator_mode (example_config ''replay'') \<noteq> ''record''"
    by (simp_all add: example_config_def)
  have s: "handler_save_recordings ?E = None"
    by (simp add: example_env_def)
  show ?thesis
    using save_recordings_by_mode[OF m p v, of "''record''" example_constants ?E]
      save_recordings_by_mode[OF m p v, of "''replay''" example_constants ?E] r n s
    by simp
qed

text \<open>
  C10. A \<^verbatim>\<open>GET\<close> of \<^verbatim>\<open>/\<close> is answered by the fixed message of \<^verbatim>\<open>root\<close>, with no
  event at all: the answer does not depend on the carriers, the configuration or the
  collaborators, and the validator is not run. Every other request that the route table
  accepts (the save-recordings route and the catch-all route) runs the validator first,
  and when the validator raises, its exception and its events are all there is: the
  handler of the route is not run.
\<close>

theorem root_needs_no_credentials:
  "(http_method req = ''GET'' \<and> url_path req = ''/'' \<longrightarrow>
      app K cfg E req = (Inr (Json root), [])) \<and>
   (\<not> (http_method req = ''GET'' \<and> url_path req = ''/'') \<longrightarrow>
    http_method req \<in> set [''GET'', ''POST'', ''PUT'', ''DELETE''] \<longrightarrow>
      (\<forall>e evs. validate_api_key cfg (authorization req) (api_key_header req)
                 (ocp_apim_subscription_key_header req) = (Inl e, evs) \<longrightarrow>
               app K cfg E req = (Inl e, evs)))"
  by (auto simp add: app_def)

theorem root_needs_no_credentials_witness:
  "app example_constants (example_config ''record'')
      (example_env (Some ok_response) Map.empty None None)
      (example_request ''GET'' ''/'' None) = (Inr (Json root), []) \<and>
   app example_constants (example_config ''record'')
      (example_env (Some ok_response) Map.empty None None)
      (example_request ''GET'' ''/'' (Some ''wrong'')) = (Inr (Json root), []) \<and>
   app example_constants (example_config ''record'')
      (example_env (Some ok_response) Map.empty None None)
      (example_request ''POST'' ''/++/save-recordings'' (Some ''wrong'')) =
     (Inl (HTTPException 401 ''Missing or incorrect API Key''),
      [Log WARNING (emoji_lock @ '' Missing or incorrect API Key provided'') []]) \<and>
   app example_constants (example_config ''record'')
      (example_env (Some ok_response) Map.empty None None)
      (example_request ''GET'' ''/foo'' None) =
     (Inl (HTTPException 401 ''Missing or incorrect API Key''),
      [Log WARNING (emoji_lock @ '' Missing or incorrect API Key provided'') []])"
proof -
  let ?cfg = "example_config ''record''"
  let ?E = "example_env (Some ok_response) Map.empty None None"
  let ?w = "[Log WARNING (emoji_lock @ '' Missing or incorrect API Key provided'') []]"
  let ?x = "HTTPException 401 ''Missing or incorrect API Key''"
  have v1: "validate_api_key ?cfg
      (authorization (example_request ''POST'' ''/++/save-recordings'' (Some ''wrong'')))
      (api_key_header (example_request ''POST'' ''/++/save-recordings'' (Some ''wrong'')))
      (ocp_apim_subscription_key_header (example_request ''POST'' ''/++/save-recordings'' (Some ''wrong'')))
      = (Inl ?x, ?w)"
    by (simp add: validate_api_key_def compare_digest_def is_ascii_def example_config_def
        example_request_def)
  have v2: "validate_api_key ?cfg
      (authorization (example_request ''GET'' ''/foo'' None))
      (api_key_header (example_request ''GET'' ''/foo'' None))
      (ocp_apim_subscription_key_header (example_request ''GET'' ''/foo'' None))
      = (Inl ?x, ?w)"
    by (simp add: validate_api_key_def example_config_def example_request_def)
  show ?thesis
    using root_needs_no_credentials[where req = "example_request ''GET'' ''/'' None"
        and K = example_constants and cfg = ?cfg and E = ?E]
      root_needs_no_credentials[where req = "example_request ''GET'' ''/'' (Some ''wrong'')"
        and K = example_constants and cfg = ?cfg and E = ?E]
      root_needs_no_credentials[where req = "example_request ''POST'' ''/++/save-recordings'' (Some ''wrong'')"
        and K = example_constants and cfg = ?cfg and E = ?E] v1
      root_needs_no_credentials[where req = "example_request ''GET'' ''/foo'' None"
        and K = example_constants and cfg = ?cfg and E = ?E] v2
    by (simp add: example_request_def)
qed

end
